theory Spec2Isabelle
  imports Main
begin

section \<open>Python values used by the documentation generator\<close>

text \<open>
  Python strings are modelled as \<^typ>\<open>string\<close>, the list of the UTF-8 bytes of the text.
  Every character the generator's own code looks at (the regular-expression classes,
  the separators, the line break) is ASCII, so a slice taken at a position the code
  computed cuts the byte list where Python cuts the code-point sequence.
\<close>

datatype py_error = AssertionError | IndexError | AttributeError | TypeError

text \<open>\<^verbatim>\<open>s.startswith(p)\<close>\<close>

definition startswith :: "string \<Rightarrow> string \<Rightarrow> bool" where
  "startswith s p = (take (length p) s = p)"

text \<open>\<^verbatim>\<open>s.endswith(p)\<close>\<close>

definition endswith :: "string \<Rightarrow> string \<Rightarrow> bool" where
  "endswith s p = (length p \<le> length s \<and> drop (length s - length p) s = p)"

section \<open>State\<close>

text \<open>
  \<^verbatim>\<open>class State\<close>: of its fields the extraction code reads the configuration switch
  \<^verbatim>\<open>config['PYBIND11_COMPATIBILITY']\<close> and the dictionary \<^verbatim>\<open>module_mapping\<close>.
  A Python dictionary iterates in insertion order and holds every key once, so
  \<^verbatim>\<open>module_mapping.items()\<close> is the list of its (key, value) pairs, oldest first.
\<close>

record state =
  PYBIND11_COMPATIBILITY :: bool
  module_mapping :: "(string \<times> string) list"

section \<open>Name mapper\<close>

text \<open>
  The test of \<^verbatim>\<open>map_name_prefix\<close> on one dictionary item:
  \<^verbatim>\<open>type == prefix or type.startswith(prefix + '.')\<close>.
\<close>

definition key_matches :: "string \<Rightarrow> string \<Rightarrow> bool" where
  "key_matches pfx name = (name = pfx \<or> startswith name (pfx @ ''.''))"

text \<open>
  \<^verbatim>\<open>
  def map_name_prefix(state: State, type: str) -> str:
      for prefix, replace in state.module_mapping.items():
          if type == prefix or type.startswith(prefix + '.'):
              return replace + type[len(prefix):]
      return type
  \<close>
  The loop over the items is \<open>map_name_prefix_items\<close>.
\<close>

fun map_name_prefix_items :: "(string \<times> string) list \<Rightarrow> string \<Rightarrow> string" where
  "map_name_prefix_items [] name = name"
| "map_name_prefix_items ((pfx, replace) # items) name =
     (if key_matches pfx name then replace @ drop (length pfx) name
      else map_name_prefix_items items name)"

definition map_name_prefix :: "state \<Rightarrow> string \<Rightarrow> string" where
  "map_name_prefix st name = map_name_prefix_items (module_mapping st) name"

section \<open>Visibility filter\<close>

text \<open>
  \<^verbatim>\<open>
  def is_internal_function_name(name: str) -> bool:
      return name.startswith('_') and not (name.startswith('__') and name.endswith('__'))
  \<close>
\<close>

definition is_internal_function_name :: "string \<Rightarrow> bool" where
  "is_internal_function_name name =
     (startswith name ''_'' \<and> \<not> (startswith name ''__'' \<and> endswith name ''__''))"

text \<open>\<^verbatim>\<open>sep.join(path)\<close>\<close>

fun join :: "string \<Rightarrow> string list \<Rightarrow> string" where
  "join sep [] = []"
| "join sep [x] = x"
| "join sep (x # y # ys) = x @ sep @ join sep (y # ys)"

text \<open>
  What the walker reads of a runtime object. An attribute can be missing, \<^verbatim>\<open>None\<close> or a
  string. A module (\<^verbatim>\<open>inspect.ismodule\<close>) has its \<^verbatim>\<open>__name__\<close>, a string, and its
  \<^verbatim>\<open>__package__\<close>, and no \<^verbatim>\<open>__module__\<close>; of any other object the walker reads
  \<^verbatim>\<open>__module__\<close> and \<^verbatim>\<open>__name__\<close>.
\<close>

datatype py_attr = Absent | PyNone | PyStr string

datatype py_object =
    Module string py_attr
  | Object py_attr py_attr

fun ismodule :: "py_object \<Rightarrow> bool" where
  "ismodule (Module n pkg) = True"
| "ismodule (Object m n) = False"

fun attr_package :: "py_object \<Rightarrow> py_attr" where
  "attr_package (Module n pkg) = pkg"
| "attr_package (Object m n) = Absent"

fun attr_module :: "py_object \<Rightarrow> py_attr" where
  "attr_module (Module n pkg) = Absent"
| "attr_module (Object m n) = m"

text \<open>
  \<^verbatim>\<open>
  def is_internal_or_imported_module_member(state, parent, path, name, object) -> bool:
      if name.startswith('_'): return True
      if not inspect.ismodule(object):
          if hasattr(object, '__module__') and map_name_prefix(state, object.__module__) != '.'.join(path):
              return True
      else:
          if state.config['PYBIND11_COMPATIBILITY'] and object.__package__ is None: return False
          if not parent.__package__: return True
          if object.__package__ not in [parent.__package__, parent.__package__ + '.' + name]: return True
      return False
  \<close>
  Reading a missing attribute raises \<^verbatim>\<open>AttributeError\<close>. With \<^verbatim>\<open>__module__\<close> set to
  \<^verbatim>\<open>None\<close>, \<^verbatim>\<open>map_name_prefix\<close> returns \<^verbatim>\<open>None\<close> from an empty table (which differs
  from every joined path) and raises on \<^verbatim>\<open>None.startswith\<close> at the first item otherwise.
\<close>

definition is_internal_or_imported_module_member ::
  "state \<Rightarrow> py_object \<Rightarrow> string list \<Rightarrow> string \<Rightarrow> py_object \<Rightarrow> py_error + bool" where
  "is_internal_or_imported_module_member st parent path name obj =
     (if startswith name ''_'' then Inr True
      else if \<not> ismodule obj then
        (case attr_module obj of
           Absent \<Rightarrow> Inr False
         | PyNone \<Rightarrow> (if module_mapping st = [] then Inr True else Inl AttributeError)
         | PyStr m \<Rightarrow> Inr (map_name_prefix st m \<noteq> join ''.'' path))
      else
        (case attr_package obj of
           Absent \<Rightarrow> (if PYBIND11_COMPATIBILITY st then Inl AttributeError
                       else (case attr_package parent of
                               Absent \<Rightarrow> Inl AttributeError
                             | PyNone \<Rightarrow> Inr True
                             | PyStr pp \<Rightarrow> (if pp = [] then Inr True else Inl AttributeError)))
         | PyNone \<Rightarrow> (if PYBIND11_COMPATIBILITY st then Inr False
                       else (case attr_package parent of
                               Absent \<Rightarrow> Inl AttributeError
                             | PyNone \<Rightarrow> Inr True
                             | PyStr pp \<Rightarrow> Inr True))
         | PyStr op \<Rightarrow>
             (case attr_package parent of
                Absent \<Rightarrow> Inl AttributeError
              | PyNone \<Rightarrow> Inr True
              | PyStr pp \<Rightarrow>
                  (if pp = [] then Inr True
                   else Inr (op \<noteq> pp \<and> op \<noteq> pp @ ''.'' @ name)))))"

section \<open>Dunder filtering on class pages\<close>

abbreviation NL :: char where "NL \<equiv> CHR 0x0A"

text \<open>
  The set \<^verbatim>\<open>_filtered_builtin_functions\<close>, after the update chosen by
  \<^verbatim>\<open>LooseVersion(sys.version) >= LooseVersion("3.7")\<close>; the argument is that test.
\<close>

definition filtered_builtin_functions :: "bool \<Rightarrow> (string \<times> string) list" where
  "filtered_builtin_functions py37 =
     [(''__delattr__'', ''Implement delattr(self, name).''),
      (''__eq__'', ''Return self==value.''),
      (''__ge__'', ''Return self>=value.''),
      (''__getattribute__'', ''Return getattr(self, name).''),
      (''__gt__'', ''Return self>value.''),
      (''__hash__'', ''Return hash(self).''),
      (''__init__'', ''Initialize self.  See help(type(self)) for accurate signature.''),
      (''__init_subclass__'',
         ''This method is called when a class is subclassed.'' @ [NL, NL] @
         ''The default implementation does nothing. It may be'' @ [NL] @
         ''overridden to extend subclasses.'' @ [NL]),
      (''__le__'', ''Return self<=value.''),
      (''__lt__'', ''Return self<value.''),
      (''__ne__'', ''Return self!=value.''),
      (''__new__'', ''Create and return a new object.  See help(type) for accurate signature.''),
      (''__repr__'', ''Return repr(self).''),
      (''__setattr__'', ''Implement setattr(self, name, value).''),
      (''__str__'', ''Return str(self).''),
      (''__subclasshook__'',
         ''Abstract classes can override this to customize issubclass().'' @ [NL, NL] @
         ''This is invoked early on by abc.ABCMeta.__subclasscheck__().'' @ [NL] @
         ''It should return True, False or NotImplemented.  If it returns'' @ [NL] @
         ''NotImplemented, the normal algorithm is used.  Otherwise, it'' @ [NL] @
         ''overrides the normal algorithm (and the outcome is cached).'' @ [NL])]
     @ (if py37 then
          [(''__dir__'', ''Default dir() implementation.''),
           (''__format__'', ''Default object formatter.''),
           (''__reduce__'', ''Helper for pickle.''),
           (''__reduce_ex__'', ''Helper for pickle.''),
           (''__sizeof__'', ''Size of object in memory, in bytes.'')]
        else
          [(''__dir__'', ''__dir__() -> list'' @ [NL] @ ''default dir() implementation''),
           (''__format__'', ''default object formatter''),
           (''__reduce__'', ''helper for pickle''),
           (''__reduce_ex__'', ''helper for pickle''),
           (''__sizeof__'', ''__sizeof__() -> int'' @ [NL] @ ''size of object in memory, in bytes'')])"

definition filtered_builtin_properties :: "(string \<times> string) list" where
  "filtered_builtin_properties =
     [(''__weakref__'', ''list of weak references to the object (if defined)'')]"

text \<open>
  \<^verbatim>\<open>(name, object.__doc__) in table\<close>; a docstring is a string or \<^verbatim>\<open>None\<close>, and the pair
  with \<^verbatim>\<open>None\<close> equals no entry.
\<close>

definition in_table :: "string \<Rightarrow> string option \<Rightarrow> (string \<times> string) list \<Rightarrow> bool" where
  "in_table name doc table = (case doc of None \<Rightarrow> False | Some d \<Rightarrow> (name, d) \<in> set table)"

text \<open>
  The two \<^verbatim>\<open>continue\<close> tests at the head of the method loop of \<^verbatim>\<open>render_class\<close>:
  \<^verbatim>\<open>
  if is_internal_function_name(name): continue
  if name.startswith('__') and (name, object.__doc__) in _filtered_builtin_functions: continue
  \<close>
\<close>

definition class_method_skipped :: "bool \<Rightarrow> string \<Rightarrow> string option \<Rightarrow> bool" where
  "class_method_skipped py37 name doc =
     (is_internal_function_name name
      \<or> (startswith name ''__'' \<and> in_table name doc (filtered_builtin_functions py37)))"

text \<open>
  The two tests at the head of the property loop of \<^verbatim>\<open>render_class\<close>:
  \<^verbatim>\<open>
  if (name, object.__doc__) in _filtered_builtin_properties: continue
  if name.startswith('_'): continue
  \<close>
\<close>

definition class_property_skipped :: "string \<Rightarrow> string option \<Rightarrow> bool" where
  "class_property_skipped name doc =
     (in_table name doc filtered_builtin_properties \<or> startswith name ''_'')"

section \<open>Method buckets of a class page\<close>

text \<open>
  The fields of a function record (\<^verbatim>\<open>out\<close> in \<^verbatim>\<open>extract_function_doc\<close>) and of its
  parameters.
\<close>

record param_doc =
  param_name :: string
  param_type :: "string option"
  param_default :: string
  param_kind :: string

record function_doc =
  fn_name :: string
  fn_params :: "param_doc list"
  has_complex_params :: bool
  has_details :: bool
  fn_summary :: string
  fn_type :: "string option"
  is_classmethod :: bool
  is_staticmethod :: bool

text \<open>The four method lists of the page of \<^verbatim>\<open>render_class\<close>.\<close>

record class_page =
  classmethods :: "function_doc list"
  staticmethods :: "function_doc list"
  dunder_methods :: "function_doc list"
  methods :: "function_doc list"

text \<open>
  The body of the loop over the records of one member:
  \<^verbatim>\<open>
  for function in extract_function_doc(state, class_, subpath, object):
      if name.startswith('__'):
          page.dunder_methods += [function]
      elif function.is_classmethod:
          page.classmethods += [function]
      elif function.is_staticmethod:
          page.staticmethods += [function]
      else:
          page.methods += [function]
  \<close>
\<close>

definition place_function :: "string \<Rightarrow> class_page \<Rightarrow> function_doc \<Rightarrow> class_page" where
  "place_function name page function =
     (if startswith name ''__'' then page\<lparr>dunder_methods := dunder_methods page @ [function]\<rparr>
      else if is_classmethod function then page\<lparr>classmethods := classmethods page @ [function]\<rparr>
      else if is_staticmethod function then page\<lparr>staticmethods := staticmethods page @ [function]\<rparr>
      else page\<lparr>methods := methods page @ [function]\<rparr>)"

definition place_functions :: "string \<Rightarrow> class_page \<Rightarrow> function_doc list \<Rightarrow> class_page" where
  "place_functions name page functions = foldl (place_function name) page functions"

section \<open>Signature grammar parser\<close>

text \<open>
  The character classes of the four regular expressions:
  \<^verbatim>\<open>
  _pybind_name_rx = re.compile('[a-zA-Z0-9_]*')
  _pybind_arg_name_rx = re.compile('[*a-zA-Z0-9_]+')
  _pybind_type_rx = re.compile('[a-zA-Z0-9_.]+')
  _pybind_default_value_rx = re.compile('[^,)]+')
  \<close>
  \<^verbatim>\<open>rx.match(s).group(0)\<close> is the longest prefix of \<open>s\<close> in the class, \<open>takeWhile\<close>; where
  the expression asks for one character at least and the prefix is empty, \<^verbatim>\<open>match\<close>
  returns \<^verbatim>\<open>None\<close> and \<^verbatim>\<open>.group\<close> raises \<^verbatim>\<open>AttributeError\<close>.
\<close>

definition is_name_char :: "char \<Rightarrow> bool" where
  "is_name_char c =
     (c \<in> set ''abcdefghijklmnopqrstuvwxyzABCDEFGHIJKLMNOPQRSTUVWXYZ0123456789_'')"

definition is_arg_name_char :: "char \<Rightarrow> bool" where
  "is_arg_name_char c = (c = CHR ''*'' \<or> is_name_char c)"

definition is_type_char :: "char \<Rightarrow> bool" where
  "is_type_char c = (is_name_char c \<or> c = CHR ''.'')"

definition is_default_value_char :: "char \<Rightarrow> bool" where
  "is_default_value_char c = (c \<noteq> CHR '','' \<and> c \<noteq> CHR '')'')"

text \<open>
  \<^verbatim>\<open>
  def parse_pybind_type(state: State, signature: str) -> str:
      input_type = _pybind_type_rx.match(signature).group(0)
      signature = signature[len(input_type):]
      type = map_name_prefix(state, input_type)
      if signature and signature[0] == '[':
          type += '['
          signature = signature[1:]
          while signature[0] != ']':
              signature, inner_type = parse_pybind_type(state, signature)
              type += inner_type
              if signature[0] == ']': break
              assert signature.startswith(', ')
              signature = signature[2:]
              type += ', '
          assert signature[0] == ']'
          signature = signature[1:]
          type += ']'
      return signature, type
  \<close>
  The \<^verbatim>\<open>while\<close> loop is \<open>parse_pybind_type_inner\<close>, with the type text built so far;
  it returns where the loop leaves, at a \<^verbatim>\<open>]\<close>. Indexing an empty string raises
  \<^verbatim>\<open>IndexError\<close>.
\<close>

function (domintros) parse_pybind_type :: "state \<Rightarrow> string \<Rightarrow> py_error + (string \<times> string)"
  and parse_pybind_type_inner :: "state \<Rightarrow> string \<Rightarrow> string \<Rightarrow> py_error + (string \<times> string)"
where
  "parse_pybind_type st signature =
     (let input_type = takeWhile is_type_char signature in
      if input_type = [] then Inl AttributeError
      else
        let signature1 = drop (length input_type) signature;
            ty = map_name_prefix st input_type
        in if signature1 \<noteq> [] \<and> hd signature1 = CHR ''['' then
             (case parse_pybind_type_inner st (ty @ ''['') (tl signature1) of
                Inl e \<Rightarrow> Inl e
              | Inr (signature2, ty2) \<Rightarrow>
                  if signature2 = [] then Inl IndexError
                  else if hd signature2 \<noteq> CHR '']'' then Inl AssertionError
                  else Inr (tl signature2, ty2 @ '']''))
           else Inr (signature1, ty))"
| "parse_pybind_type_inner st ty signature =
     (if signature = [] then Inl IndexError
      else if hd signature = CHR '']'' then Inr (signature, ty)
      else
        (case parse_pybind_type st signature of
           Inl e \<Rightarrow> Inl e
         | Inr (signature1, inner_type) \<Rightarrow>
             if signature1 = [] then Inl IndexError
             else if hd signature1 = CHR '']'' then Inr (signature1, ty @ inner_type)
             else if \<not> startswith signature1 '', '' then Inl AssertionError
             else parse_pybind_type_inner st (ty @ inner_type @ '', '') (drop 2 signature1)))"
  by pat_completeness auto

text \<open>
  Termination: a type takes one character at least, so what a call leaves is shorter
  than what it was given.
\<close>

lemma takeWhile_drop_shorter:
  "takeWhile P s \<noteq> [] \<Longrightarrow> length (drop (length (takeWhile P s)) s) < length s"
  by (cases s) auto

lemma parse_pybind_type_shorter_dom:
  "parse_pybind_type_parse_pybind_type_inner_dom (Inl (st, s)) \<Longrightarrow>
     parse_pybind_type st s = Inr (s', t) \<Longrightarrow> length s' < length s"
  "parse_pybind_type_parse_pybind_type_inner_dom (Inr (st, ty, s)) \<Longrightarrow>
     parse_pybind_type_inner st ty s = Inr (s', t') \<Longrightarrow> length s' \<le> length s"
proof (induct st s and st ty s arbitrary: s' t and s' t'
    rule: parse_pybind_type_parse_pybind_type_inner.pinduct)
  case (1 st signature)
  let ?tok = "takeWhile is_type_char signature"
  let ?rest = "drop (length ?tok) signature"
  from "1.prems" "1.hyps"(1) have tok: "?tok \<noteq> []"
    by (auto simp: parse_pybind_type.psimps Let_def split: if_splits)
  have short: "length ?rest < length signature"
    using tok by (rule takeWhile_drop_shorter)
  show ?case
  proof (cases "?rest \<noteq> [] \<and> hd ?rest = CHR ''[''")
    case False
    with "1.prems" "1.hyps"(1) tok short show ?thesis
      by (auto simp: parse_pybind_type.psimps Let_def split: if_splits)
  next
    case True
    with "1.prems" "1.hyps"(1) tok obtain s2 t2 where
      inner: "parse_pybind_type_inner st (map_name_prefix st ?tok @ ''['') (tl ?rest) = Inr (s2, t2)"
      and s': "s' = tl s2"
      by (auto simp: parse_pybind_type.psimps Let_def split: if_splits sum.splits prod.splits)
    from "1.hyps"(2) [OF refl tok refl refl True inner]
    have "length s2 \<le> length (tl ?rest)" .
    with short s' show ?thesis by simp
  qed
next
  case (2 st ty signature)
  show ?case
  proof (cases "signature = [] \<or> hd signature = CHR '']''")
    case True
    with "2.prems" "2.hyps"(1) show ?thesis
      by (auto simp: parse_pybind_type_inner.psimps split: if_splits)
  next
    case False
    then have ne: "signature \<noteq> []" and nb: "hd signature \<noteq> CHR '']''" by simp_all
    from "2.prems" "2.hyps"(1) ne nb obtain s1 t1 where
      ty: "parse_pybind_type st signature = Inr (s1, t1)"
      by (auto simp: parse_pybind_type_inner.psimps split: if_splits sum.splits prod.splits)
    from "2.hyps"(2) [OF ne nb ty] have s1: "length s1 < length signature" .
    show ?thesis
    proof (cases "s1 \<noteq> [] \<and> hd s1 \<noteq> CHR '']'' \<and> startswith s1 '', ''")
      case False
      with "2.prems" "2.hyps"(1) ne nb ty s1 show ?thesis
        by (auto simp: parse_pybind_type_inner.psimps split: if_splits)
    next
      case True
      with "2.prems" "2.hyps"(1) ne nb ty
      have rec: "parse_pybind_type_inner st (ty @ t1 @ '', '') (drop 2 s1) = Inr (s', t')"
        by (auto simp: parse_pybind_type_inner.psimps split: if_splits)
      from True have "s1 \<noteq> []" "hd s1 \<noteq> CHR '']''" "\<not> \<not> startswith s1 '', ''" by simp_all
      from "2.hyps"(3) [OF ne nb ty refl this rec]
      have "length s' \<le> length (drop 2 s1)" .
      with s1 show ?thesis by simp
    qed
  qed
qed

termination parse_pybind_type
proof (relation "measure (\<lambda>x. case x of Inl (st, s) \<Rightarrow> 2 * length s
                                        | Inr (st, ty, s) \<Rightarrow> 2 * length s + 1)")
  show "wf (measure (\<lambda>x. case x of Inl (st, s) \<Rightarrow> 2 * length s
                                  | Inr (st, ty, s) \<Rightarrow> 2 * length s + 1))"
    by simp
next
  fix st signature x xa xb
  assume "x = takeWhile is_type_char signature" "x \<noteq> []"
    "xa = drop (length x) signature" "xa \<noteq> [] \<and> hd xa = CHR ''[''"
  then have "length xa < length signature" "xa \<noteq> []"
    using takeWhile_drop_shorter [of is_type_char signature] by simp_all
  then show "(Inr (st, xb @ ''['', tl xa), Inl (st, signature))
      \<in> measure (\<lambda>x. case x of Inl (st, s) \<Rightarrow> 2 * length s | Inr (st, ty, s) \<Rightarrow> 2 * length s + 1)"
    by (cases xa) auto
next
  fix st ty signature
  show "(Inl (st, signature), Inr (st, ty, signature))
      \<in> measure (\<lambda>x. case x of Inl (st, s) \<Rightarrow> 2 * length s | Inr (st, ty, s) \<Rightarrow> 2 * length s + 1)"
    by simp
next
  fix st ty signature b x y
  assume "parse_pybind_type st signature = Inr b" "(x, y) = b"
    and "parse_pybind_type_parse_pybind_type_inner_dom (Inl (st, signature))"
  then have "length x < length signature"
    using parse_pybind_type_shorter_dom(1) [of st signature x y] by simp
  then show "(Inr (st, ty @ y @ '', '', drop 2 x), Inr (st, ty, signature))
      \<in> measure (\<lambda>x. case x of Inl (st, s) \<Rightarrow> 2 * length s | Inr (st, ty, s) \<Rightarrow> 2 * length s + 1)"
    by simp
qed


declare parse_pybind_type.simps [simp del] parse_pybind_type_inner.simps [simp del]

lemma parse_pybind_type_total:
  "parse_pybind_type_parse_pybind_type_inner_dom (Inl (st, s))"
  "parse_pybind_type_parse_pybind_type_inner_dom (Inr (st, ty, s))"
proof (induct st s and st ty s rule: parse_pybind_type_parse_pybind_type_inner.induct)
  case (1 st signature)
  show ?case
    by (rule parse_pybind_type_parse_pybind_type_inner.domintros(1), rule "1") simp_all
next
  case (2 st ty signature)
  show ?case
  proof (rule parse_pybind_type_parse_pybind_type_inner.domintros(2))
    assume "signature \<noteq> []" "hd signature \<noteq> CHR '']''"
    then show "parse_pybind_type_parse_pybind_type_inner_dom (Inl (st, signature))"
      by (rule "2")
  next
    fix a b
    assume "signature \<noteq> []" "hd signature \<noteq> CHR '']''"
      "parse_pybind_type st signature = Inr (a, b)" "a \<noteq> []" "hd a \<noteq> CHR '']''"
      "startswith a '', ''"
    then show "parse_pybind_type_parse_pybind_type_inner_dom (Inr (st, ty @ b @ '', '', drop 2 a))"
      using "2"(2) [of "(a, b)" a b] by simp
  qed
qed

lemma parse_pybind_type_shorter:
  "parse_pybind_type st s = Inr (s', t) \<Longrightarrow> length s' < length s"
  using parse_pybind_type_shorter_dom(1) [OF parse_pybind_type_total(1)] .

text \<open>
  One parsed argument \<^verbatim>\<open>(arg_name, arg_type, default)\<close> and the tuple
  \<^verbatim>\<open>(name, summary, args, return_type)\<close> of \<^verbatim>\<open>parse_pybind_signature\<close>; \<^verbatim>\<open>None\<close> is
  \<open>None\<close>.
\<close>

type_synonym arg_doc = "string \<times> string option \<times> string option"
type_synonym signature_doc = "string \<times> string \<times> arg_doc list \<times> string option"

text \<open>
  The body of the argument loop, up to \<^verbatim>\<open>args += [(arg_name, arg_type, default)]\<close>:
  \<^verbatim>\<open>
  arg_name = _pybind_arg_name_rx.match(signature).group(0)
  assert arg_name
  signature = signature[len(arg_name):]
  if signature.startswith(': '):
      signature = signature[2:]
      signature, arg_type = parse_pybind_type(state, signature)
  else:
      arg_type = None
  if signature.startswith('='):
      signature = signature[1:]
      default = _pybind_default_value_rx.match(signature).group(0)
      signature = signature[len(default):]
  else:
      default = None
  \<close>
\<close>

definition parse_arg_type :: "state \<Rightarrow> string \<Rightarrow> py_error + (string \<times> string option)" where
  "parse_arg_type st signature =
     (if startswith signature '': '' then
        (case parse_pybind_type st (drop 2 signature) of
           Inl e \<Rightarrow> Inl e
         | Inr (signature1, arg_type) \<Rightarrow> Inr (signature1, Some arg_type))
      else Inr (signature, None))"

definition parse_arg_default :: "string \<Rightarrow> py_error + (string \<times> string option)" where
  "parse_arg_default signature =
     (if startswith signature ''='' then
        (let signature1 = drop 1 signature;
             dflt = takeWhile is_default_value_char signature1
         in if dflt = [] then Inl AttributeError
            else Inr (drop (length dflt) signature1, Some dflt))
      else Inr (signature, None))"

definition parse_arg :: "state \<Rightarrow> string \<Rightarrow> py_error + (arg_doc \<times> string)" where
  "parse_arg st signature =
     (let arg_name = takeWhile is_arg_name_char signature in
      if arg_name = [] then Inl AttributeError
      else
        (case parse_arg_type st (drop (length arg_name) signature) of
           Inl e \<Rightarrow> Inl e
         | Inr (signature1, arg_type) \<Rightarrow>
             (case parse_arg_default signature1 of
                Inl e \<Rightarrow> Inl e
              | Inr (signature2, dflt) \<Rightarrow> Inr ((arg_name, arg_type, dflt), signature2))))"

lemma parse_arg_type_shorter:
  "parse_arg_type st s = Inr (s', t) \<Longrightarrow> length s' \<le> length s"
  by (auto simp: parse_arg_type_def split: if_splits sum.splits dest!: parse_pybind_type_shorter)

lemma parse_arg_default_shorter:
  "parse_arg_default s = Inr (s', d) \<Longrightarrow> length s' \<le> length s"
  by (auto simp: parse_arg_default_def Let_def split: if_splits)

lemma parse_arg_shorter:
  assumes "parse_arg st s = Inr (a, s')"
  shows "length s' < length s"
proof -
  let ?n = "takeWhile is_arg_name_char s"
  from assms have n: "?n \<noteq> []"
    by (auto simp: parse_arg_def Let_def split: if_splits)
  from assms n obtain s1 t d where
    t: "parse_arg_type st (drop (length ?n) s) = Inr (s1, t)"
    and d: "parse_arg_default s1 = Inr (s', d)"
    by (auto simp: parse_arg_def Let_def split: if_splits sum.splits)
  from takeWhile_drop_shorter [OF n] parse_arg_type_shorter [OF t] parse_arg_default_shorter [OF d]
  show ?thesis by simp
qed

text \<open>
  The argument loop:
  \<^verbatim>\<open>
  while signature[0] != ')':
      ... (one argument, above)
      args += [(arg_name, arg_type, default)]
      if signature[0] == ')': break
      if not signature.startswith(', '):
          ... (the failure branch)
          return (name, summary, [('...', None, None)], None)
      signature = signature[2:]
  \<close>
  The loop is left at a \<^verbatim>\<open>)\<close> with the arguments read (\<open>ArgsClosed\<close>), or through the
  \<^verbatim>\<open>return\<close> of the failure branch (\<open>ArgsUnparsable\<close>), or by an exception.
\<close>

datatype args_exit = ArgsClosed "arg_doc list" string | ArgsUnparsable

function parse_args :: "state \<Rightarrow> arg_doc list \<Rightarrow> string \<Rightarrow> py_error + args_exit" where
  "parse_args st args signature =
     (if signature = [] then Inl IndexError
      else if hd signature = CHR '')'' then Inr (ArgsClosed args signature)
      else
        (case parse_arg st signature of
           Inl e \<Rightarrow> Inl e
         | Inr (arg, signature1) \<Rightarrow>
             if signature1 = [] then Inl IndexError
             else if hd signature1 = CHR '')'' then Inr (ArgsClosed (args @ [arg]) signature1)
             else if \<not> startswith signature1 '', '' then Inr ArgsUnparsable
             else parse_args st (args @ [arg]) (drop 2 signature1)))"
  by pat_completeness auto
termination
  by (relation "measure (\<lambda>(st, args, s). length s)")
     (auto dest!: parse_arg_shorter)

declare parse_args.simps [simp del]

text \<open>\<^verbatim>\<open>s.find(sub)\<close>: the first index where \<open>sub\<close> starts, or -1.\<close>

fun str_find :: "string \<Rightarrow> string \<Rightarrow> int" where
  "str_find [] sub = (if sub = [] then 0 else - 1)"
| "str_find (c # cs) sub =
     (if startswith (c # cs) sub then 0
      else (let r = str_find cs sub in if r = - 1 then - 1 else r + 1))"

text \<open>\<^verbatim>\<open>s[i:j]\<close>, where a negative index counts from the end.\<close>

definition slice :: "string \<Rightarrow> int \<Rightarrow> int \<Rightarrow> string" where
  "slice s i j =
     (let n = int (length s);
          lo = (if i < 0 then max 0 (n + i) else min i n);
          hi = (if j < 0 then max 0 (n + j) else min j n)
      in take (nat (hi - lo)) (drop (nat lo) s))"

text \<open>
  Library functions the generator calls and does not define: \<^verbatim>\<open>inspect.cleandoc\<close>,
  \<^verbatim>\<open>html.escape\<close>, and the docutils rendering behind \<^verbatim>\<open>render_inline_rst\<close>. They are
  parameters of the model.
\<close>

record pylib =
  cleandoc :: "string \<Rightarrow> string"
  html_escape :: "string \<Rightarrow> string"
  render_inline_rst :: "string \<Rightarrow> string"

text \<open>
  \<^verbatim>\<open>
  def extract_summary(state: State, external_docs, path: List[str], doc: str) -> str:
      path_str = '.'.join(path)
      if path_str in external_docs and external_docs[path_str]['summary']:
          return render_inline_rst(state, external_docs[path_str]['summary'])
      if not doc: return ''
      doc = inspect.cleandoc(doc)
      end = doc.find('\n\n')
      return html.escape(doc if end == -1 else doc[:end])
  \<close>
  \<open>external_docs\<close> maps a path to its summary.
\<close>

definition extract_summary ::
  "pylib \<Rightarrow> (string \<rightharpoonup> string) \<Rightarrow> string list \<Rightarrow> string \<Rightarrow> string" where
  "extract_summary lib external_docs path doc =
     (let path_str = join ''.'' path in
      if (case external_docs path_str of None \<Rightarrow> False | Some summary \<Rightarrow> summary \<noteq> [])
      then render_inline_rst lib (the (external_docs path_str))
      else if doc = [] then []
      else
        (let doc1 = cleandoc lib doc;
             e = str_find doc1 [NL, NL]
         in html_escape lib (if e = - 1 then doc1 else take (nat e) doc1)))"

text \<open>The one-character string of the horizontal ellipsis U+2026, in UTF-8.\<close>

definition ellipsis :: string where
  "ellipsis = [CHR 0xE2, CHR 0x80, CHR 0xA6]"

text \<open>
  The failure branch, which \<^verbatim>\<open>parse_pybind_signature\<close> has twice in the same words:
  \<^verbatim>\<open>
  end = original_signature.find('\n')
  logging.warning("cannot parse pybind11 function signature %s",
                  original_signature[:end if end != -1 else None])
  if end != -1 and len(original_signature) > end + 1 and original_signature[end + 1] == '\n':
      summary = extract_summary(state, {}, [], original_signature[end + 1:])
  else:
      summary = ''
  return (name, summary, [('...', None, None)], None)
  \<close>
  (the parameter name, written with three dots here, is the ellipsis character in the source).
  A result is the list of the warnings logged and the value returned or exception raised.
\<close>

definition cannot_parse :: "pylib \<Rightarrow> string \<Rightarrow> string \<Rightarrow> string list \<times> (py_error + signature_doc)" where
  "cannot_parse lib original_signature name =
     (let e = str_find original_signature [NL] in
      ([''cannot parse pybind11 function signature ''
          @ (if e \<noteq> - 1 then take (nat e) original_signature else original_signature)],
       Inr (name,
            (if e \<noteq> - 1 \<and> int (length original_signature) > e + 1
                \<and> original_signature ! nat (e + 1) = NL
             then extract_summary lib Map.empty [] (drop (nat (e + 1)) original_signature)
             else []),
            [(ellipsis, None, None)], None)))"

text \<open>
  \<^verbatim>\<open>
  if signature.startswith(' -> '):
      signature = signature[4:]
      signature, return_type = parse_pybind_type(state, signature)
  else:
      return_type = None
  \<close>
\<close>

definition parse_return_type :: "state \<Rightarrow> string \<Rightarrow> py_error + (string \<times> string option)" where
  "parse_return_type st signature =
     (if startswith signature '' -> '' then
        (case parse_pybind_type st (drop 4 signature) of
           Inl e \<Rightarrow> Inl e
         | Inr (signature1, return_type) \<Rightarrow> Inr (signature1, Some return_type))
      else Inr (signature, None))"

text \<open>
  \<^verbatim>\<open>
  def parse_pybind_signature(state: State, signature: str):
      original_signature = signature # For error reporting
      name = _pybind_name_rx.match(signature).group(0)
      signature = signature[len(name):]
      args = []
      assert signature[0] == '('
      signature = signature[1:]
      ... (the argument loop)
      assert signature[0] == ')'
      signature = signature[1:]
      ... (the return type)
      if signature and signature[0] != '\n':
          ... (the failure branch)
      if len(signature) > 1 and signature[1] == '\n':
          summary = extract_summary(state, {}, [], signature[2:])
      else:
          summary = ''
      return (name, summary, args, return_type)
  \<close>
\<close>

definition parse_pybind_signature ::
  "pylib \<Rightarrow> state \<Rightarrow> string \<Rightarrow> string list \<times> (py_error + signature_doc)" where
  "parse_pybind_signature lib st signature =
     (let original_signature = signature;
          name = takeWhile is_name_char signature;
          signature1 = drop (length name) signature
      in if signature1 = [] then ([], Inl IndexError)
         else if hd signature1 \<noteq> CHR ''('' then ([], Inl AssertionError)
         else
           (case parse_args st [] (tl signature1) of
              Inl e \<Rightarrow> ([], Inl e)
            | Inr ArgsUnparsable \<Rightarrow> cannot_parse lib original_signature name
            | Inr (ArgsClosed args signature2) \<Rightarrow>
                if signature2 = [] then ([], Inl IndexError)
                else if hd signature2 \<noteq> CHR '')'' then ([], Inl AssertionError)
                else
                  (case parse_return_type st (tl signature2) of
                     Inl e \<Rightarrow> ([], Inl e)
                   | Inr (signature3, return_type) \<Rightarrow>
                       if signature3 \<noteq> [] \<and> hd signature3 \<noteq> NL
                       then cannot_parse lib original_signature name
                       else ([], Inr (name,
                                      (if length signature3 > 1 \<and> signature3 ! 1 = NL
                                       then extract_summary lib Map.empty [] (drop 2 signature3)
                                       else []),
                                      args, return_type)))))"

text \<open>\<^verbatim>\<open>str(n)\<close> of a natural number, and \<^verbatim>\<open>'{}. {}('.format(n, name)\<close>.\<close>

function str_nat :: "nat \<Rightarrow> string" where
  "str_nat n = (if n < 10 then [''0123456789'' ! n] else str_nat (n div 10) @ [''0123456789'' ! (n mod 10)])"
  by pat_completeness auto
termination
  by (relation "measure id") auto

declare str_nat.simps [simp del]

definition marker :: "nat \<Rightarrow> string \<Rightarrow> string" where
  "marker n name = str_nat n @ ''. '' @ name @ ''(''"

text \<open>
  Termination of the overload loop: a text that starts with the marker of \<open>n\<close> does not
  start with the marker of \<open>n + 1\<close>, so the next marker is found further on.
\<close>

lemma str_find_ge: "- 1 \<le> str_find s sub"
  by (induction s) (auto simp: Let_def)

lemma str_find_zero: "str_find s sub = 0 \<Longrightarrow> startswith s sub"
proof (cases s)
  case Nil
  then show "str_find s sub = 0 \<Longrightarrow> startswith s sub"
    by (auto simp: startswith_def split: if_splits)
next
  case (Cons c cs)
  assume z: "str_find s sub = 0"
  show "startswith s sub"
  proof (rule ccontr)
    assume "\<not> startswith s sub"
    with z Cons have "(let r = str_find cs sub in if r = - 1 then - 1 else r + 1) = 0" by simp
    with str_find_ge [of cs sub] show False by (auto simp: Let_def split: if_splits)
  qed
qed

lemma str_nat_last: "last (str_nat n) = ''0123456789'' ! (n mod 10)"
  by (subst str_nat.simps) simp

lemma str_nat_digits: "set (str_nat n) \<subseteq> set ''0123456789''"
proof (induction n rule: str_nat.induct)
  case (1 n)
  have nth: "''0123456789'' ! k \<in> set ''0123456789''" if "k < 10" for k :: nat
    using that nth_mem [of k "''0123456789''"] by simp
  show ?case
  proof (cases "n < 10")
    case True
    with nth [of n] show ?thesis by (subst str_nat.simps) simp
  next
    case False
    with "1" nth [of "n mod 10"] show ?thesis by (subst str_nat.simps) simp
  qed
qed

lemma str_nat_Suc_neq: "str_nat (Suc n) \<noteq> str_nat n"
proof
  assume "str_nat (Suc n) = str_nat n"
  then have "last (str_nat (Suc n)) = last (str_nat n)" by simp
  then have eq: "''0123456789'' ! (Suc n mod 10) = ''0123456789'' ! (n mod 10)"
    by (simp only: str_nat_last)
  have "distinct ''0123456789''" by simp
  moreover have "Suc n mod 10 < length ''0123456789''" "n mod 10 < length ''0123456789''"
    by simp_all
  ultimately have "Suc n mod 10 = n mod 10"
    using eq nth_eq_iff_index_eq by blast
  then show False by (simp add: mod_Suc split: if_splits)
qed

lemma marker_digits:
  "takeWhile (\<lambda>c. c \<in> set ''0123456789'') (marker n name @ rest) = str_nat n"
proof -
  have digits: "\<And>x. x \<in> set (str_nat n) \<Longrightarrow> x \<in> set ''0123456789''"
    using str_nat_digits [of n] by blast
  have "takeWhile (\<lambda>c. c \<in> set ''0123456789'') (str_nat n @ (''. '' @ name @ ''('' @ rest))
      = str_nat n @ takeWhile (\<lambda>c. c \<in> set ''0123456789'') (''. '' @ name @ ''('' @ rest)"
    using digits by (rule takeWhile_append2)
  also have "takeWhile (\<lambda>c. c \<in> set ''0123456789'') (''. '' @ name @ ''('' @ rest) = []"
    by simp
  finally show ?thesis by (simp add: marker_def)
qed

lemma startswith_append: "startswith s p \<Longrightarrow> s = p @ drop (length p) s"
  unfolding startswith_def using append_take_drop_id [of "length p" s] by simp

lemma markers_differ:
  assumes "startswith doc (marker n name)"
  shows "\<not> startswith doc (marker (Suc n) name)"
proof
  assume "startswith doc (marker (Suc n) name)"
  from startswith_append [OF this] startswith_append [OF assms]
  have "marker (Suc n) name @ drop (length (marker (Suc n) name)) doc
      = marker n name @ drop (length (marker n name)) doc" by simp
  then have "takeWhile (\<lambda>c. c \<in> set ''0123456789'')
        (marker (Suc n) name @ drop (length (marker (Suc n) name)) doc)
      = takeWhile (\<lambda>c. c \<in> set ''0123456789'')
        (marker n name @ drop (length (marker n name)) doc)" by simp
  then have "str_nat (Suc n) = str_nat n" by (simp only: marker_digits)
  with str_nat_Suc_neq show False by blast
qed

lemma next_marker_positive:
  assumes "startswith doc (marker n name)" and "str_find doc (marker (Suc n) name) \<noteq> - 1"
  shows "0 < str_find doc (marker (Suc n) name)"
proof -
  from markers_differ [OF assms(1)] str_find_zero
  have "str_find doc (marker (Suc n) name) \<noteq> 0" by blast
  with assms(2) str_find_ge [of doc "marker (Suc n) name"] show ?thesis by linarith
qed

lemma startswith_marker_nonempty: "startswith doc (marker n name) \<Longrightarrow> doc \<noteq> []"
  by (cases doc) (simp_all add: startswith_def marker_def)

text \<open>
  The loop of \<^verbatim>\<open>parse_pybind_docstring\<close>, with \<open>n\<close> the value of \<^verbatim>\<open>id\<close> on entry:
  \<^verbatim>\<open>
  while True:
      assert doc.startswith('{}. {}('.format(id, name))
      id = id + 1
      next = doc.find('{}. {}('.format(id, name))
      overloads += [parse_pybind_signature(state, doc[len(str(id - 1)) + 2:next])]
      assert overloads[-1][0] == name
      if next == -1: break
      doc = doc[next:]
  return overloads
  \<close>
\<close>

function parse_overloads ::
  "pylib \<Rightarrow> state \<Rightarrow> string \<Rightarrow> nat \<Rightarrow> string \<Rightarrow> string list \<Rightarrow> signature_doc list
     \<Rightarrow> string list \<times> (py_error + signature_doc list)" where
  "parse_overloads lib st name n doc log overloads =
     (if \<not> startswith doc (marker n name) then (log, Inl AssertionError)
      else
        (let next = str_find doc (marker (Suc n) name);
             parsed = parse_pybind_signature lib st (slice doc (int (length (str_nat n)) + 2) next);
             log1 = log @ fst parsed
         in case snd parsed of
              Inl e \<Rightarrow> (log1, Inl e)
            | Inr overload \<Rightarrow>
                if fst overload \<noteq> name then (log1, Inl AssertionError)
                else if next = - 1 then (log1, Inr (overloads @ [overload]))
                else parse_overloads lib st name (Suc n) (drop (nat next) doc) log1
                       (overloads @ [overload])))"
  by pat_completeness auto
termination
proof (relation "measure (\<lambda>(lib, st, name, n, doc, log, overloads). length doc)", goal_cases)
  case 1
  show ?case by simp
next
  case (2 lib st name n doc log overloads x xa xb b)
  from "2"(1) have sw: "startswith doc (marker n name)" by simp
  from next_marker_positive [OF sw] "2"(2,7) have "0 < x" by simp
  moreover from startswith_marker_nonempty [OF sw] have "doc \<noteq> []" .
  ultimately show ?case by simp
qed

declare parse_overloads.simps [simp del]

text \<open>
  \<^verbatim>\<open>
  def parse_pybind_docstring(state: State, name: str, doc: str):
      overload_header = "{}(*args, **kwargs)\nOverloaded function.\n\n".format(name);
      if doc.startswith(overload_header):
          doc = doc[len(overload_header):]
          overloads = []
          id = 1
          ... (the loop)
      else:
          return [parse_pybind_signature(state, doc)]
  \<close>
\<close>

definition parse_pybind_docstring ::
  "pylib \<Rightarrow> state \<Rightarrow> string \<Rightarrow> string \<Rightarrow> string list \<times> (py_error + signature_doc list)" where
  "parse_pybind_docstring lib st name doc =
     (let overload_header = name @ ''(*args, **kwargs)'' @ [NL] @ ''Overloaded function.'' @ [NL, NL] in
      if startswith doc overload_header then
        parse_overloads lib st name 1 (drop (length overload_header) doc) [] []
      else
        (case parse_pybind_signature lib st doc of
           (log, Inl e) \<Rightarrow> (log, Inl e)
         | (log, Inr parsed) \<Rightarrow> (log, Inr [parsed])))"

section \<open>Arguments consumed by the signature parser\<close>

text \<open>
  \<open>args_consumed st signature args rest\<close>: from \<open>signature\<close>, the text after the opening
  parenthesis, the argument loop reads the arguments \<open>args\<close>, one at least, each by the code
  of \<open>parse_arg\<close> and each but the last followed by a comma and a space, and \<open>rest\<close> is the
  text after the last of them. An argument is read only where the loop reads one: at a
  character that is not the closing parenthesis.
\<close>

inductive args_consumed :: "state \<Rightarrow> string \<Rightarrow> arg_doc list \<Rightarrow> string \<Rightarrow> bool" where
  first: "signature \<noteq> [] \<Longrightarrow> hd signature \<noteq> CHR '')'' \<Longrightarrow>
          parse_arg st signature = Inr (arg, rest) \<Longrightarrow>
          args_consumed st signature [arg] rest"
| more: "args_consumed st signature args ('', '' @ signature1) \<Longrightarrow>
         signature1 \<noteq> [] \<Longrightarrow> hd signature1 \<noteq> CHR '')'' \<Longrightarrow>
         parse_arg st signature1 = Inr (arg, rest) \<Longrightarrow>
         args_consumed st signature (args @ [arg]) rest"

text \<open>
  What the loop does after an argument, at \<^verbatim>\<open>args += [(arg_name, arg_type, default)]\<close>:
  the \<^verbatim>\<open>break\<close>, the failure branch, or the next round.
\<close>

definition after_argument :: "state \<Rightarrow> arg_doc list \<Rightarrow> string \<Rightarrow> py_error + args_exit" where
  "after_argument st args signature =
     (if signature = [] then Inl IndexError
      else if hd signature = CHR '')'' then Inr (ArgsClosed args signature)
      else if \<not> startswith signature '', '' then Inr ArgsUnparsable
      else parse_args st args (drop 2 signature))"

section \<open>Member extractor: functions read from the docstring\<close>

text \<open>
  The two loops that guess whether the arguments are positional-only:
  \<^verbatim>\<open>
  positional_only = True
  for i, arg in enumerate(args):      (enumerate(args[1:]) for an instance method)
      name, type, default = arg
      if name != 'arg{}'.format(i):
          positional_only = False
          break
  \<close>
\<close>

fun sequential_arg_names :: "nat \<Rightarrow> arg_doc list \<Rightarrow> bool" where
  "sequential_arg_names i [] = True"
| "sequential_arg_names i ((name, ty, dflt) # args) =
     (if name \<noteq> ''arg'' @ str_nat i then False else sequential_arg_names (Suc i) args)"

text \<open>The truth value of a string or \<^verbatim>\<open>None\<close>: neither \<^verbatim>\<open>None\<close> nor empty.\<close>

definition truthy :: "string option \<Rightarrow> bool" where
  "truthy v = (case v of None \<Rightarrow> False | Some s \<Rightarrow> s \<noteq> [])"

text \<open>
  One parameter record:
  \<^verbatim>\<open>
  name, type, default = arg
  param = Empty()
  param.name = name
  if name == 'self': param.type = None
  else: param.type = type
  param.default = html.escape(default or '')
  if type or default: out.has_complex_params = True
  if name == '*args':
      param.name = 'args'
      param.kind = 'VAR_POSITIONAL'
  elif name == '**kwargs':
      param.name = 'kwargs'
      param.kind = 'VAR_KEYWORD'
  else:
      param.kind = 'POSITIONAL_ONLY' if positional_only else 'POSITIONAL_OR_KEYWORD'
  \<close>
\<close>

definition pybind_param :: "pylib \<Rightarrow> bool \<Rightarrow> arg_doc \<Rightarrow> param_doc" where
  "pybind_param lib positional_only arg =
     (case arg of (name, ty, dflt) \<Rightarrow>
        \<lparr>param_name = (if name = ''*args'' then ''args''
                        else if name = ''**kwargs'' then ''kwargs'' else name),
         param_type = (if name = ''self'' then None else ty),
         param_default = html_escape lib (if truthy dflt then the dflt else []),
         param_kind = (if name = ''*args'' then ''VAR_POSITIONAL''
                        else if name = ''**kwargs'' then ''VAR_KEYWORD''
                        else if positional_only then ''POSITIONAL_ONLY''
                        else ''POSITIONAL_OR_KEYWORD'')\<rparr>)"

text \<open>
  The record of one parsed signature, the body of
  \<^verbatim>\<open>for name, summary, args, type in funcs\<close>:
  \<^verbatim>\<open>
  out.name = path[-1]
  out.params = []
  out.has_complex_params = False
  out.has_details = False
  out.summary = summary
  out.type = None if type == 'None' else type
  out.is_classmethod = False
  if inspect.isclass(parent) and args and args[0][0] == 'self':
      out.is_staticmethod = False
  else:
      out.is_staticmethod = True
  if inspect.isclass(parent) and not out.is_staticmethod:
      assert args and args[0][0] == 'self'
      ... (positional_only over args[1:])
  else:
      ... (positional_only over args)
  for i, arg in enumerate(args):
      ... (one parameter record)
      out.params += [param]
  \<close>
  The assertion repeats the test that cleared \<^verbatim>\<open>is_staticmethod\<close> and cannot fail.
\<close>

definition pybind_function_doc :: "pylib \<Rightarrow> bool \<Rightarrow> string \<Rightarrow> signature_doc \<Rightarrow> function_doc" where
  "pybind_function_doc lib parent_isclass path_last func =
     (case func of (name, summary, args, ty) \<Rightarrow>
        (let static = \<not> (parent_isclass \<and> args \<noteq> [] \<and> fst (hd args) = ''self'');
             positional_only =
               (if parent_isclass \<and> \<not> static then sequential_arg_names 0 (tl args)
                else sequential_arg_names 0 args)
         in \<lparr>fn_name = path_last,
             fn_params = map (pybind_param lib positional_only) args,
             has_complex_params = list_ex (\<lambda>(name, ty, dflt). truthy ty \<or> truthy dflt) args,
             has_details = False,
             fn_summary = summary,
             fn_type = (if ty = Some ''None'' then None else ty),
             is_classmethod = False,
             is_staticmethod = static\<rparr>))"

text \<open>
  \<^verbatim>\<open>
  def extract_function_doc(state: State, parent, path: List[str], function) -> List[Any]:
      if state.config['PYBIND11_COMPATIBILITY'] and function.__doc__.startswith(path[-1]):
          funcs = parse_pybind_docstring(state, path[-1], function.__doc__)
          overloads = []
          for name, summary, args, type in funcs:
              ...
              overloads += [out]
          return overloads
      else:
          ... (introspection with inspect.signature)
  \<close>
  \<open>parent_isclass\<close> is \<^verbatim>\<open>inspect.isclass(parent)\<close> and \<open>doc\<close> is \<^verbatim>\<open>function.__doc__\<close>, a
  string or \<^verbatim>\<open>None\<close>. The introspection branch reads the live object through the
  \<^verbatim>\<open>inspect\<close> library; its outcome is the parameter \<open>introspected\<close>.
\<close>

definition extract_function_doc ::
  "pylib \<Rightarrow> state \<Rightarrow> bool \<Rightarrow> string list \<Rightarrow> string option
     \<Rightarrow> string list \<times> (py_error + function_doc list)
     \<Rightarrow> string list \<times> (py_error + function_doc list)" where
  "extract_function_doc lib st parent_isclass path doc introspected =
     (if \<not> PYBIND11_COMPATIBILITY st then introspected
      else
        (case doc of
           None \<Rightarrow> ([], Inl AttributeError)
         | Some d \<Rightarrow>
             if path = [] then ([], Inl IndexError)
             else if \<not> startswith d (last path) then introspected
             else
               (case parse_pybind_docstring lib st (last path) d of
                  (log, Inl e) \<Rightarrow> (log, Inl e)
                | (log, Inr funcs) \<Rightarrow>
                    (log, Inr (map (pybind_function_doc lib parent_isclass (last path)) funcs)))))"

section \<open>Page-tree walker: the export list\<close>

text \<open>
  The two statements that register a rewrite, in both branches of the first pass:
  \<^verbatim>\<open>
  assert key not in state.module_mapping
  state.module_mapping[key] = '.'.join(subpath)
  \<close>
  A new key goes to the end of the dictionary.
\<close>

definition register_mapping :: "state \<Rightarrow> string \<Rightarrow> string \<Rightarrow> py_error + state" where
  "register_mapping st key val =
     (if key \<in> fst ` set (module_mapping st) then Inl AssertionError
      else Inr (st\<lparr>module_mapping := module_mapping st @ [(key, val)]\<rparr>))"

text \<open>
  The body of the first loop over \<^verbatim>\<open>module.__all__\<close> in \<^verbatim>\<open>render_module\<close>, for the
  object \<^verbatim>\<open>getattr(module, name)\<close>:
  \<^verbatim>\<open>
  subpath = path + [name]
  if inspect.ismodule(object) and object.__name__ != '.'.join(subpath):
      assert object.__name__ not in state.module_mapping
      state.module_mapping[object.__name__] = '.'.join(subpath)
  elif hasattr(object, '__module__'):
      subname = object.__module__ + '.' + object.__name__
      if subname != '.'.join(subpath):
          assert subname not in state.module_mapping
          state.module_mapping[subname] = '.'.join(subpath)
  \<close>
  Adding \<^verbatim>\<open>None\<close> to a string raises \<^verbatim>\<open>TypeError\<close>.
\<close>

definition register_export :: "state \<Rightarrow> string list \<Rightarrow> string \<Rightarrow> py_object \<Rightarrow> py_error + state" where
  "register_export st path name obj =
     (let subpath = path @ [name] in
      case obj of
        Module n pkg \<Rightarrow>
          if n \<noteq> join ''.'' subpath then register_mapping st n (join ''.'' subpath)
          else Inr st
      | Object m n \<Rightarrow>
          (case m of
             Absent \<Rightarrow> Inr st
           | PyNone \<Rightarrow> Inl TypeError
           | PyStr module_name \<Rightarrow>
               (case n of
                  Absent \<Rightarrow> Inl AttributeError
                | PyNone \<Rightarrow> Inl TypeError
                | PyStr own_name \<Rightarrow>
                    (let subname = module_name @ ''.'' @ own_name in
                     if subname \<noteq> join ''.'' subpath
                     then register_mapping st subname (join ''.'' subpath)
                     else Inr st))))"

text \<open>
  The first loop, \<^verbatim>\<open>for name in module.__all__\<close>; \<open>members\<close> gives the attributes of the
  module, and \<^verbatim>\<open>getattr\<close> of a name that is not one raises \<^verbatim>\<open>AttributeError\<close>.
\<close>

fun register_exports ::
  "state \<Rightarrow> string list \<Rightarrow> (string \<rightharpoonup> py_object) \<Rightarrow> string list \<Rightarrow> py_error + state" where
  "register_exports st path members [] = Inr st"
| "register_exports st path members (name # names) =
     (case members name of
        None \<Rightarrow> Inl AttributeError
      | Some obj \<Rightarrow>
          (case register_export st path name obj of
             Inl e \<Rightarrow> Inl e
           | Inr st1 \<Rightarrow> register_exports st1 path members names))"

text \<open>
  The second loop, \<^verbatim>\<open>for name in module.__all__\<close> under \<^verbatim>\<open># Now extract the actual docs\<close>.
  What it does with one member (the record added to the page, and for a module or a class
  the page rendered recursively, which can register rewrites of its own) is the parameter
  \<open>document\<close>, from the state, the path of the member, the member and the page so far.
\<close>

fun extract_exports ::
  "(state \<Rightarrow> string list \<Rightarrow> py_object \<Rightarrow> 'page \<Rightarrow> py_error + state \<times> 'page)
     \<Rightarrow> state \<Rightarrow> string list \<Rightarrow> (string \<rightharpoonup> py_object) \<Rightarrow> string list \<Rightarrow> 'page
     \<Rightarrow> py_error + state \<times> 'page" where
  "extract_exports document st path members [] page = Inr (st, page)"
| "extract_exports document st path members (name # names) page =
     (case members name of
        None \<Rightarrow> Inl AttributeError
      | Some obj \<Rightarrow>
          (case document st (path @ [name]) obj page of
             Inl e \<Rightarrow> Inl e
           | Inr (st1, page1) \<Rightarrow> extract_exports document st1 path members names page1))"

text \<open>
  The branch \<^verbatim>\<open>if hasattr(module, '__all__')\<close> of \<^verbatim>\<open>render_module\<close>: the first loop,
  then the second.
\<close>

definition render_module_exports ::
  "(state \<Rightarrow> string list \<Rightarrow> py_object \<Rightarrow> 'page \<Rightarrow> py_error + state \<times> 'page)
     \<Rightarrow> state \<Rightarrow> string list \<Rightarrow> (string \<rightharpoonup> py_object) \<Rightarrow> string list \<Rightarrow> 'page
     \<Rightarrow> py_error + state \<times> 'page" where
  "render_module_exports document st path members all_names page =
     (case register_exports st path members all_names of
        Inl e \<Rightarrow> Inl e
      | Inr st1 \<Rightarrow> extract_exports document st1 path members all_names page)"

section \<open>The type grammar of the specification\<close>











section \<open>Name mapper: properties\<close>

lemma map_name_prefix_items_no_match:
  "\<forall>(k, r) \<in> set items. \<not> key_matches k name \<Longrightarrow> map_name_prefix_items items name = name"
  by (induction items) auto

lemma map_name_prefix_items_first_match:
  assumes "\<forall>(k, r) \<in> set pre. \<not> key_matches k name" and "key_matches pfx name"
  shows "map_name_prefix_items (pre @ (pfx, replace) # post) name = replace @ drop (length pfx) name"
  using assms by (induction pre) auto

lemma map_name_prefix_items_some_match:
  "\<exists>(k, r) \<in> set items. key_matches k name \<Longrightarrow>
   \<exists>(k, r) \<in> set items. key_matches k name \<and> map_name_prefix_items items name = r @ drop (length k) name"
proof (induction items)
  case Nil
  then show ?case by simp
next
  case (Cons item items)
  obtain pfx replace where item: "item = (pfx, replace)" by (cases item)
  show ?case
  proof (cases "key_matches pfx name")
    case True
    then show ?thesis by (simp add: item)
  next
    case False
    with Cons.prems have "\<exists>(k, r) \<in> set items. key_matches k name"
      by (auto simp: item)
    from Cons.IH [OF this] False show ?thesis
      by (auto simp: item)
  qed
qed

text \<open>
  Claim C1. For every registered mapping table and every name \<open>n\<close>: when some registered
  key matches \<open>n\<close> (the name equals the key, or starts with the key followed by a dot), the
  result is the replacement of a matching key followed by \<open>n\<close> without its first
  \<open>len(key)\<close> characters; when no registered key matches, the result is \<open>n\<close> itself.
\<close>

theorem map_name_prefix_contract:
  "((\<exists>(k, r) \<in> set (module_mapping st). n = k \<or> startswith n (k @ ''.'')) \<longrightarrow>
      (\<exists>(k, r) \<in> set (module_mapping st).
          (n = k \<or> startswith n (k @ ''.'')) \<and> map_name_prefix st n = r @ drop (length k) n))
   \<and> ((\<forall>(k, r) \<in> set (module_mapping st). \<not> (n = k \<or> startswith n (k @ ''.''))) \<longrightarrow>
      map_name_prefix st n = n)"
proof (intro conjI impI)
  assume "\<exists>(k, r) \<in> set (module_mapping st). n = k \<or> startswith n (k @ ''.'')"
  then have "\<exists>(k, r) \<in> set (module_mapping st). key_matches k n"
    by (simp add: key_matches_def)
  from map_name_prefix_items_some_match [OF this]
  show "\<exists>(k, r) \<in> set (module_mapping st).
          (n = k \<or> startswith n (k @ ''.'')) \<and> map_name_prefix st n = r @ drop (length k) n"
    by (simp add: map_name_prefix_def key_matches_def)
next
  assume "\<forall>(k, r) \<in> set (module_mapping st). \<not> (n = k \<or> startswith n (k @ ''.''))"
  then have "\<forall>(k, r) \<in> set (module_mapping st). \<not> key_matches k n"
    by (simp add: key_matches_def)
  from map_name_prefix_items_no_match [OF this]
  show "map_name_prefix st n = n"
    by (simp add: map_name_prefix_def)
qed

theorem map_name_prefix_contract_witness:
  "map_name_prefix \<lparr>PYBIND11_COMPATIBILITY = False,
                     module_mapping = [(''pkg._impl'', ''pkg'')]\<rparr> ''pkg._impl.Foo'' = ''pkg.Foo''
   \<and> map_name_prefix \<lparr>PYBIND11_COMPATIBILITY = False,
                       module_mapping = [(''pkg._impl'', ''pkg'')]\<rparr> ''pkg._implicit'' = ''pkg._implicit''"
  using map_name_prefix_contract
          [of "\<lparr>PYBIND11_COMPATIBILITY = False, module_mapping = [(''pkg._impl'', ''pkg'')]\<rparr>"
              "''pkg._impl.Foo''"]
        map_name_prefix_contract
          [of "\<lparr>PYBIND11_COMPATIBILITY = False, module_mapping = [(''pkg._impl'', ''pkg'')]\<rparr>"
              "''pkg._implicit''"]
  by (simp add: startswith_def)

text \<open>
  Claim C10. When several registered keys match the same name, the table is scanned in
  registration order and the first match wins: if the key \<open>k\<close> matches \<open>n\<close> and no key
  registered before \<open>k\<close> does, the result is \<open>k\<close>'s replacement followed by \<open>n\<close> without its
  first \<open>len(k)\<close> characters, whatever is registered after \<open>k\<close>.
\<close>

theorem map_name_prefix_first_registered_wins:
  assumes "module_mapping st = pre @ (k, r) # post"
    and "\<forall>(k', r') \<in> set pre. \<not> key_matches k' n"
    and "key_matches k n"
  shows "map_name_prefix st n = r @ drop (length k) n"
  using map_name_prefix_items_first_match [OF assms(2,3)] assms(1)
  by (simp add: map_name_prefix_def)

theorem map_name_prefix_first_registered_wins_witness:
  "key_matches ''a'' ''a.b.c'' \<and> key_matches ''a.b'' ''a.b.c''
   \<and> map_name_prefix \<lparr>PYBIND11_COMPATIBILITY = False,
                       module_mapping = [(''a'', ''x''), (''a.b'', ''y'')]\<rparr> ''a.b.c'' = ''x.b.c''
   \<and> map_name_prefix \<lparr>PYBIND11_COMPATIBILITY = False,
                       module_mapping = [(''a.b'', ''y''), (''a'', ''x'')]\<rparr> ''a.b.c'' = ''y.c''"
  using map_name_prefix_first_registered_wins
          [of "\<lparr>PYBIND11_COMPATIBILITY = False, module_mapping = [(''a'', ''x''), (''a.b'', ''y'')]\<rparr>"
              "[]" "''a''" "''x''" "[(''a.b'', ''y'')]" "''a.b.c''"]
        map_name_prefix_first_registered_wins
          [of "\<lparr>PYBIND11_COMPATIBILITY = False, module_mapping = [(''a.b'', ''y''), (''a'', ''x'')]\<rparr>"
              "[]" "''a.b''" "''y''" "[(''a'', ''x'')]" "''a.b.c''"]
  by (simp add: key_matches_def startswith_def)

section \<open>Visibility filter: properties\<close>

text \<open>
  As claim C4 states it, a dunder name would never be excluded by the name rule, for
  module members as for class methods and properties. The module filter and the
  property loop test \<^verbatim>\<open>name.startswith('_')\<close> alone: the module attribute
  \<^verbatim>\<open>__version__\<close>, which nothing else would exclude (\<^verbatim>\<open>version\<close> is kept), is
  excluded, and so is a property with a dunder name.
\<close>

theorem dunder_module_member_excluded:
  "is_internal_or_imported_module_member
      \<lparr>PYBIND11_COMPATIBILITY = False, module_mapping = []\<rparr>
      (Module ''pkg'' (PyStr ''pkg''))
      [''pkg''] ''__version__''
      (Object Absent Absent) = Inr True
   \<and> is_internal_or_imported_module_member
      \<lparr>PYBIND11_COMPATIBILITY = False, module_mapping = []\<rparr>
      (Module ''pkg'' (PyStr ''pkg''))
      [''pkg''] ''version''
      (Object Absent Absent) = Inr False
   \<and> startswith ''__version__'' ''__'' \<and> endswith ''__version__'' ''__''
   \<and> class_property_skipped ''__doc_url__'' (Some ''Where the documentation is.'')
   \<and> \<not> class_property_skipped ''doc_url'' (Some ''Where the documentation is.'')"
  by (simp add: is_internal_or_imported_module_member_def class_property_skipped_def
      in_table_def filtered_builtin_properties_def startswith_def endswith_def)

text \<open>
  Claim C4, amended. In inspection mode every name that begins with an underscore is
  excluded from a module's members and from a class's properties, dunder names included.
  For class methods a name that begins with an underscore and is not a dunder name
  (leading and trailing double underscore) is excluded, and a dunder name is not excluded
  by the name rule: it is skipped exactly when its name and docstring are in the table of
  known docstrings.
\<close>

theorem underscore_names_visibility:
  "(startswith name ''_'' \<longrightarrow>
      is_internal_or_imported_module_member st parent path name obj = Inr True
      \<and> class_property_skipped name doc)
   \<and> (startswith name ''_'' \<and> \<not> (startswith name ''__'' \<and> endswith name ''__'') \<longrightarrow>
      is_internal_function_name name \<and> class_method_skipped py37 name doc)
   \<and> (startswith name ''__'' \<and> endswith name ''__'' \<longrightarrow>
      \<not> is_internal_function_name name
      \<and> (class_method_skipped py37 name doc
           \<longleftrightarrow> in_table name doc (filtered_builtin_functions py37)))"
  by (simp add: is_internal_or_imported_module_member_def class_property_skipped_def
      class_method_skipped_def is_internal_function_name_def)

theorem underscore_names_visibility_witness:
  "startswith ''_helper'' ''_'' \<and> startswith ''__init__'' ''__'' \<and> endswith ''__init__'' ''__''
   \<and> is_internal_or_imported_module_member
        \<lparr>PYBIND11_COMPATIBILITY = False, module_mapping = []\<rparr>
        (Module ''pkg'' (PyStr ''pkg''))
        [''pkg''] ''_helper''
        (Object (PyStr ''pkg'') (PyStr ''_helper'')) = Inr True
   \<and> class_property_skipped ''_helper'' (Some ''Internal.'')
   \<and> is_internal_function_name ''_helper''
   \<and> class_method_skipped True ''_helper'' (Some ''Internal.'')
   \<and> \<not> is_internal_function_name ''__init__''
   \<and> \<not> class_method_skipped True ''__init__'' (Some ''Constructor.'')"
proof -
  have a: "startswith ''_helper'' ''_''"
    and b: "\<not> (startswith ''_helper'' ''__'' \<and> endswith ''_helper'' ''__'')"
    and c: "startswith ''__init__'' ''__''" and d: "endswith ''__init__'' ''__''"
    by (simp_all add: startswith_def endswith_def)
  have e: "\<not> in_table ''__init__'' (Some ''Constructor.'') (filtered_builtin_functions True)"
    by (simp add: in_table_def filtered_builtin_functions_def)
  from underscore_names_visibility
         [of "''_helper''" "\<lparr>PYBIND11_COMPATIBILITY = False, module_mapping = []\<rparr>"
             "(Module ''pkg'' (PyStr ''pkg''))"
             "[''pkg'']"
             "(Object (PyStr ''pkg'') (PyStr ''_helper''))"
             "Some ''Internal.''" True]
       underscore_names_visibility
         [of "''__init__''" "\<lparr>PYBIND11_COMPATIBILITY = False, module_mapping = []\<rparr>"
             "(Module ''pkg'' (PyStr ''pkg''))"
             "[''pkg'']"
             "(Object (PyStr ''pkg'') (PyStr ''_helper''))"
             "Some ''Constructor.''" True]
       a b c d e
  show ?thesis by simp
qed

section \<open>Dunder filtering: properties\<close>

lemma filtered_names_dunder:
  "(name, d) \<in> set (filtered_builtin_functions py37) \<Longrightarrow>
     startswith name ''__'' \<and> endswith name ''__''"
  by (cases py37) (auto simp: filtered_builtin_functions_def startswith_def endswith_def)

lemma filtered_names_unique:
  "(name, d) \<in> set (filtered_builtin_functions py37) \<Longrightarrow>
   (name, d') \<in> set (filtered_builtin_functions py37) \<Longrightarrow> d' = d"
  by (cases py37) (auto simp: filtered_builtin_functions_def)

text \<open>
  Claim C9. A method whose name and exact docstring are an entry of the table selected by
  the runtime version is skipped on a class page, and a method with the name of an entry
  and any other docstring (or none) is kept. In particular \<^verbatim>\<open>__repr__\<close> with the text
  \<^verbatim>\<open>Return repr(self).\<close> is skipped and \<^verbatim>\<open>__repr__\<close> with any other text is kept.
\<close>

theorem dunder_filter_by_exact_docstring:
  "((name, d) \<in> set (filtered_builtin_functions py37) \<longrightarrow>
       class_method_skipped py37 name (Some d)
       \<and> (\<forall>doc. doc \<noteq> Some d \<longrightarrow> \<not> class_method_skipped py37 name doc))
   \<and> class_method_skipped py37 ''__repr__'' (Some ''Return repr(self).'')
   \<and> (\<forall>doc. doc \<noteq> Some ''Return repr(self).'' \<longrightarrow> \<not> class_method_skipped py37 ''__repr__'' doc)"
proof -
  have gen: "class_method_skipped py37 name (Some d)
       \<and> (\<forall>doc. doc \<noteq> Some d \<longrightarrow> \<not> class_method_skipped py37 name doc)"
    if mem: "(name, d) \<in> set (filtered_builtin_functions py37)" for name d
  proof (intro conjI allI impI)
    from filtered_names_dunder [OF mem] mem
    show "class_method_skipped py37 name (Some d)"
      by (simp add: class_method_skipped_def in_table_def)
  next
    fix doc assume ne: "doc \<noteq> Some d"
    from filtered_names_dunder [OF mem]
    have "\<not> is_internal_function_name name"
      by (simp add: is_internal_function_name_def)
    moreover have "\<not> in_table name doc (filtered_builtin_functions py37)"
      using ne filtered_names_unique [OF mem]
      by (auto simp: in_table_def split: option.splits)
    ultimately show "\<not> class_method_skipped py37 name doc"
      by (simp add: class_method_skipped_def)
  qed
  have repr: "(''__repr__'', ''Return repr(self).'') \<in> set (filtered_builtin_functions py37)"
    by (simp add: filtered_builtin_functions_def)
  from gen [OF repr] gen show ?thesis by blast
qed

theorem dunder_filter_by_exact_docstring_witness:
  "(''__hash__'', ''Return hash(self).'') \<in> set (filtered_builtin_functions True)
   \<and> class_method_skipped True ''__hash__'' (Some ''Return hash(self).'')
   \<and> \<not> class_method_skipped True ''__hash__'' (Some ''Hash of the vertex.'')
   \<and> \<not> class_method_skipped True ''__repr__'' (Some ''Vector as text.'')
   \<and> \<not> class_method_skipped True ''__repr__'' None"
proof -
  have mem: "(''__hash__'', ''Return hash(self).'') \<in> set (filtered_builtin_functions True)"
    by (simp add: filtered_builtin_functions_def)
  from dunder_filter_by_exact_docstring [of "''__hash__''" "''Return hash(self).''" True] mem
  show ?thesis by simp
qed

section \<open>Method buckets: properties\<close>

lemma place_functions_dunder:
  "startswith name ''__'' \<Longrightarrow>
   place_functions name page fs = page\<lparr>dunder_methods := dunder_methods page @ fs\<rparr>"
  unfolding place_functions_def
  by (induction fs arbitrary: page) (simp_all add: place_function_def)

lemma place_functions_plain:
  "\<not> startswith name ''__'' \<Longrightarrow>
   place_functions name page fs =
     page\<lparr>classmethods := classmethods page @ filter is_classmethod fs,
          staticmethods := staticmethods page
             @ filter (\<lambda>f. \<not> is_classmethod f \<and> is_staticmethod f) fs,
          methods := methods page
             @ filter (\<lambda>f. \<not> is_classmethod f \<and> \<not> is_staticmethod f) fs\<rparr>"
  unfolding place_functions_def
  by (induction fs arbitrary: page) (simp_all add: place_function_def)

lemma three_way_filter_length:
  "length (filter c fs) + length (filter (\<lambda>f. \<not> c f \<and> s f) fs)
     + length (filter (\<lambda>f. \<not> c f \<and> \<not> s f) fs) = length fs"
  by (induction fs) auto

text \<open>
  Claim C5. The records of a routine go to exactly one of the four lists of the class
  page, decided in this order: a name that starts with a double underscore puts them all
  in the dunder methods; otherwise a record goes to the class methods if its class-method
  flag is set, else to the static methods if its static-method flag is set, else to the
  instance methods. The four lists together grow by exactly the records placed.
\<close>

theorem class_page_method_buckets:
  "dunder_methods (place_functions name page fs) =
      dunder_methods page @ (if startswith name ''__'' then fs else [])
   \<and> classmethods (place_functions name page fs) =
      classmethods page @ (if startswith name ''__'' then [] else filter is_classmethod fs)
   \<and> staticmethods (place_functions name page fs) =
      staticmethods page @ (if startswith name ''__'' then []
         else filter (\<lambda>f. \<not> is_classmethod f \<and> is_staticmethod f) fs)
   \<and> methods (place_functions name page fs) =
      methods page @ (if startswith name ''__'' then []
         else filter (\<lambda>f. \<not> is_classmethod f \<and> \<not> is_staticmethod f) fs)
   \<and> length (dunder_methods (place_functions name page fs))
      + length (classmethods (place_functions name page fs))
      + length (staticmethods (place_functions name page fs))
      + length (methods (place_functions name page fs))
     = length (dunder_methods page) + length (classmethods page)
       + length (staticmethods page) + length (methods page) + length fs"
proof (cases "startswith name ''__''")
  case True
  then show ?thesis by (simp add: place_functions_dunder)
next
  case False
  from three_way_filter_length [of is_classmethod fs is_staticmethod]
  show ?thesis using False by (simp add: place_functions_plain)
qed

theorem class_page_method_buckets_witness:
  "place_functions ''area''
     \<lparr>classmethods = [], staticmethods = [], dunder_methods = [], methods = []\<rparr>
     [\<lparr>fn_name = ''area'', fn_params = [], has_complex_params = False, has_details = False,
       fn_summary = [], fn_type = None, is_classmethod = False, is_staticmethod = True\<rparr>,
      \<lparr>fn_name = ''area'', fn_params = [], has_complex_params = False, has_details = False,
       fn_summary = [], fn_type = Some ''float'', is_classmethod = False, is_staticmethod = False\<rparr>]
   = \<lparr>classmethods = [],
      staticmethods =
        [\<lparr>fn_name = ''area'', fn_params = [], has_complex_params = False, has_details = False,
          fn_summary = [], fn_type = None, is_classmethod = False, is_staticmethod = True\<rparr>],
      dunder_methods = [],
      methods =
        [\<lparr>fn_name = ''area'', fn_params = [], has_complex_params = False, has_details = False,
          fn_summary = [], fn_type = Some ''float'', is_classmethod = False,
          is_staticmethod = False\<rparr>]\<rparr>"
  using class_page_method_buckets [of "''area''"
     "\<lparr>classmethods = [], staticmethods = [], dunder_methods = [], methods = []\<rparr>"
     "[\<lparr>fn_name = ''area'', fn_params = [], has_complex_params = False, has_details = False,
       fn_summary = [], fn_type = None, is_classmethod = False, is_staticmethod = True\<rparr>,
      \<lparr>fn_name = ''area'', fn_params = [], has_complex_params = False, has_details = False,
       fn_summary = [], fn_type = Some ''float'', is_classmethod = False, is_staticmethod = False\<rparr>]"]
  by (cases "place_functions ''area''
     \<lparr>classmethods = [], staticmethods = [], dunder_methods = [], methods = []\<rparr>
     [\<lparr>fn_name = ''area'', fn_params = [], has_complex_params = False, has_details = False,
       fn_summary = [], fn_type = None, is_classmethod = False, is_staticmethod = True\<rparr>,
      \<lparr>fn_name = ''area'', fn_params = [], has_complex_params = False, has_details = False,
       fn_summary = [], fn_type = Some ''float'', is_classmethod = False, is_staticmethod = False\<rparr>]")
     (simp add: startswith_def)

section \<open>Type parser: properties\<close>




















section \<open>Signature parser: properties\<close>

lemma parse_args_step:
  "signature \<noteq> [] \<Longrightarrow> hd signature \<noteq> CHR '')'' \<Longrightarrow> parse_arg st signature = Inr (arg, rest) \<Longrightarrow>
   parse_args st args signature = after_argument st (args @ [arg]) rest"
  by (subst parse_args.simps) (simp add: after_argument_def)

lemma parse_args_consumed:
  "args_consumed st signature args rest \<Longrightarrow>
   parse_args st acc signature = after_argument st (acc @ args) rest"
proof (induction arbitrary: acc rule: args_consumed.induct)
  case (first signature st arg rest)
  then show ?case by (simp add: parse_args_step)
next
  case (more st signature args signature1 arg rest)
  have "parse_args st acc signature = after_argument st (acc @ args) ('', '' @ signature1)"
    by (rule more.IH)
  also have "\<dots> = parse_args st (acc @ args) signature1"
    by (simp add: after_argument_def startswith_def)
  also have "\<dots> = after_argument st ((acc @ args) @ [arg]) rest"
    using more.hyps(2,3,4) by (rule parse_args_step)
  finally show ?case by simp
qed

lemma args_consumed_nonempty: "args_consumed st signature args rest \<Longrightarrow> args \<noteq> []"
  by (induction rule: args_consumed.induct) simp_all

lemma str_find_char:
  "str_find s [c] = (if c \<in> set s then int (length (takeWhile (\<lambda>x. x \<noteq> c) s)) else - 1)"
proof (induction s)
  case Nil
  then show ?case by simp
next
  case (Cons x xs)
  then show ?case by (auto simp: startswith_def Let_def)
qed

lemma cannot_parse_eq:
  "cannot_parse lib original_signature name =
     ([''cannot parse pybind11 function signature ''
         @ takeWhile (\<lambda>c. c \<noteq> NL) original_signature],
      Inr (name,
           (if startswith (dropWhile (\<lambda>c. c \<noteq> NL) original_signature) [NL, NL]
            then extract_summary lib Map.empty []
                   (drop 1 (dropWhile (\<lambda>c. c \<noteq> NL) original_signature))
            else []),
           [(ellipsis, None, None)], None))"
proof (cases "NL \<in> set original_signature")
  case False
  then have tw: "takeWhile (\<lambda>c. c \<noteq> NL) original_signature = original_signature"
    and dw: "dropWhile (\<lambda>c. c \<noteq> NL) original_signature = []"
    by (auto simp: takeWhile_eq_all_conv dropWhile_eq_Nil_conv)
  show ?thesis
    using False by (simp add: cannot_parse_def str_find_char tw dw startswith_def)
next
  case True
  let ?first = "takeWhile (\<lambda>c. c \<noteq> NL) original_signature"
  let ?after = "dropWhile (\<lambda>c. c \<noteq> NL) original_signature"
  from True have ne: "?after \<noteq> []" by (auto simp: dropWhile_eq_Nil_conv)
  then have hd: "hd ?after = NL" using hd_dropWhile [of "\<lambda>c. c \<noteq> NL" original_signature] by simp
  have dr: "drop (length ?first) original_signature = ?after"
    by (simp add: dropWhile_eq_drop)
  have "length (?first @ ?after) = length ?first + length ?after"
    by (rule length_append)
  then have len: "length original_signature = length ?first + length ?after"
    by (simp only: takeWhile_dropWhile_id)
  have "(?first @ ?after) ! (length ?first + 1) = ?after ! 1"
    by (rule nth_append_length_plus)
  then have nth: "original_signature ! Suc (length ?first) = ?after ! 1"
    by (simp only: takeWhile_dropWhile_id Suc_eq_plus1)
  obtain rest where after: "?after = NL # rest" using ne hd by (cases ?after) auto
  have drop_suc: "drop (Suc (length ?first)) original_signature = drop 1 ?after"
    using drop_drop [of 1 "length ?first" original_signature] dr by simp
  show ?thesis
    using True
    by (cases rest)
       (simp_all add: cannot_parse_def str_find_char Let_def len nth drop_suc after
          startswith_def nat_add_distrib takeWhile_eq_take [symmetric])
qed

lemma parse_pybind_signature_unparsable:
  assumes "dropWhile is_name_char signature = CHR ''('' # sig0"
    and "parse_args st [] sig0 = Inr ArgsUnparsable"
  shows "parse_pybind_signature lib st signature
       = cannot_parse lib signature (takeWhile is_name_char signature)"
proof -
  from assms(1) have dr: "drop (length (takeWhile is_name_char signature)) signature
      = CHR ''('' # sig0" by (simp add: dropWhile_eq_drop)
  then have "drop (length (takeWhile is_name_char signature)) signature \<noteq> []" by simp
  then have "\<not> length signature \<le> length (takeWhile is_name_char signature)"
    by (simp only: drop_eq_Nil not_False_eq_True)
  with dr assms(2-) show ?thesis
    by (simp add: parse_pybind_signature_def Let_def)
qed

lemma parse_pybind_signature_trailing:
  assumes "dropWhile is_name_char signature = CHR ''('' # sig0"
    and "parse_args st [] sig0 = Inr (ArgsClosed args closing)"
    and "hd closing = CHR '')''" and "closing \<noteq> []"
    and "parse_return_type st (tl closing) = Inr (rest, ret)"
    and "rest \<noteq> []" and "hd rest \<noteq> NL"
  shows "parse_pybind_signature lib st signature
       = cannot_parse lib signature (takeWhile is_name_char signature)"
proof -
  from assms(1) have dr: "drop (length (takeWhile is_name_char signature)) signature
      = CHR ''('' # sig0" by (simp add: dropWhile_eq_drop)
  then have "drop (length (takeWhile is_name_char signature)) signature \<noteq> []" by simp
  then have "\<not> length signature \<le> length (takeWhile is_name_char signature)"
    by (simp only: drop_eq_Nil not_False_eq_True)
  with dr assms(2-) show ?thesis
    by (simp add: parse_pybind_signature_def Let_def)
qed

lemma parse_args_closed:
  "parse_args st acc signature = Inr (ArgsClosed args closing) \<Longrightarrow>
   closing \<noteq> [] \<and> hd closing = CHR '')''"
proof (induction st acc signature rule: parse_args.induct)
  case (1 st acc signature)
  show ?case
  proof (cases "signature = [] \<or> hd signature = CHR '')''")
    case True
    with "1.prems" show ?thesis
      by (subst (asm) parse_args.simps) (auto split: if_splits)
  next
    case False
    then have ne: "signature \<noteq> []" and nc: "hd signature \<noteq> CHR '')''" by simp_all
    from "1.prems" ne nc obtain arg rest where arg: "parse_arg st signature = Inr (arg, rest)"
      by (subst (asm) parse_args.simps) (auto split: sum.splits)
    from "1.prems" have after: "after_argument st (acc @ [arg]) rest = Inr (ArgsClosed args closing)"
      by (simp add: parse_args_step [OF ne nc arg])
    show ?thesis
    proof (cases "rest \<noteq> [] \<and> hd rest \<noteq> CHR '')'' \<and> startswith rest '', ''")
      case False
      with after show ?thesis by (auto simp: after_argument_def split: if_splits)
    next
      case True
      with after have "parse_args st (acc @ [arg]) (drop 2 rest) = Inr (ArgsClosed args closing)"
        by (simp add: after_argument_def)
      with "1.IH" [OF ne nc arg refl] True show ?thesis by simp
    qed
  qed
qed

lemmas parser_defs =
  parse_pybind_signature_def parse_args.simps parse_arg_def parse_arg_type_def
  parse_arg_default_def parse_return_type_def parse_pybind_type.simps
  parse_pybind_type_inner.simps is_arg_name_char_def is_default_value_char_def
  is_type_char_def is_name_char_def startswith_def map_name_prefix_def Let_def

text \<open>
  As claim C2 states it, the parser would never raise where what follows the arguments
  consumed is neither a comma and a space nor a closing parenthesis, and the summary would
  be the text after the first blank line. In \<^verbatim>\<open>f(a\<close> the argument \<^verbatim>\<open>a\<close> is consumed and
  nothing follows it: \<^verbatim>\<open>signature[0]\<close> raises \<^verbatim>\<open>IndexError\<close>. In the second text the
  first line break is not followed by a blank line, and the summary is empty although a
  blank line and the text \<^verbatim>\<open>bar\<close> come later.
\<close>

theorem parse_pybind_signature_unclosed_raises:
  "\<forall>lib.
     args_consumed \<lparr>PYBIND11_COMPATIBILITY = True, module_mapping = []\<rparr>
       ''a'' [(''a'', None, None)] []
   \<and> parse_pybind_signature lib \<lparr>PYBIND11_COMPATIBILITY = True, module_mapping = []\<rparr> ''f(a''
      = ([], Inl IndexError)
   \<and> parse_pybind_signature lib \<lparr>PYBIND11_COMPATIBILITY = True, module_mapping = []\<rparr>
        (''f(a b)'' @ [NL] @ ''foo'' @ [NL, NL] @ ''bar'')
      = ([''cannot parse pybind11 function signature f(a b)''],
         Inr (''f'', [], [(ellipsis, None, None)], None))"
proof (intro allI conjI)
  show "args_consumed \<lparr>PYBIND11_COMPATIBILITY = True, module_mapping = []\<rparr>
       ''a'' [(''a'', None, None)] []"
    by (rule args_consumed.first) (simp_all add: parser_defs)
next
  fix lib
  show "parse_pybind_signature lib \<lparr>PYBIND11_COMPATIBILITY = True, module_mapping = []\<rparr> ''f(a''
      = ([], Inl IndexError)"
    by (simp add: parser_defs)
next
  fix lib
  show "parse_pybind_signature lib \<lparr>PYBIND11_COMPATIBILITY = True, module_mapping = []\<rparr>
        (''f(a b)'' @ [NL] @ ''foo'' @ [NL, NL] @ ''bar'')
      = ([''cannot parse pybind11 function signature f(a b)''],
         Inr (''f'', [], [(ellipsis, None, None)], None))"
    by (simp add: parser_defs cannot_parse_def)
qed

text \<open>
  Claim C2, amended. Let the text after the name be an opening parenthesis and more. If,
  after one or more arguments are consumed, at least one character follows and what
  follows starts neither with a closing parenthesis nor with a comma and a space, or if
  the argument list is closed and, after the optional return type, a character other than
  a line break follows, then \<open>parse_pybind_signature\<close> raises nothing, logs exactly one
  warning, the fixed message followed by the original text up to its first line break,
  and returns the name, a single parameter named with the ellipsis with no type and no
  default, and no return type. The summary is \<open>extract_summary\<close> of the text after the
  first line break when that line break is directly followed by a second one, and empty
  otherwise.
\<close>

theorem parse_pybind_signature_degrades:
  assumes paren: "dropWhile is_name_char signature = CHR ''('' # sig0"
    and fail:
      "(\<exists>args rest. args_consumed st sig0 args rest
           \<and> rest \<noteq> [] \<and> hd rest \<noteq> CHR '')'' \<and> \<not> startswith rest '', '')
       \<or> (\<exists>args closing ret rest. parse_args st [] sig0 = Inr (ArgsClosed args closing)
           \<and> parse_return_type st (tl closing) = Inr (rest, ret)
           \<and> rest \<noteq> [] \<and> hd rest \<noteq> NL)"
  shows "parse_pybind_signature lib st signature =
     ([''cannot parse pybind11 function signature '' @ takeWhile (\<lambda>c. c \<noteq> NL) signature],
      Inr (takeWhile is_name_char signature,
           (if startswith (dropWhile (\<lambda>c. c \<noteq> NL) signature) [NL, NL]
            then extract_summary lib Map.empty [] (drop 1 (dropWhile (\<lambda>c. c \<noteq> NL) signature))
            else []),
           [(ellipsis, None, None)], None))"
proof -
  have "parse_pybind_signature lib st signature
       = cannot_parse lib signature (takeWhile is_name_char signature)"
    using fail
  proof (elim disjE exE conjE)
    fix args rest
    assume "args_consumed st sig0 args rest" "rest \<noteq> []" "hd rest \<noteq> CHR '')''"
      "\<not> startswith rest '', ''"
    then have "parse_args st [] sig0 = Inr ArgsUnparsable"
      by (simp add: parse_args_consumed after_argument_def)
    with paren show ?thesis by (rule parse_pybind_signature_unparsable)
  next
    fix args closing ret rest
    assume closed: "parse_args st [] sig0 = Inr (ArgsClosed args closing)"
      and ret: "parse_return_type st (tl closing) = Inr (rest, ret)"
      and rest: "rest \<noteq> []" "hd rest \<noteq> NL"
    from parse_args_closed [OF closed] have "hd closing = CHR '')''" "closing \<noteq> []" by simp_all
    with paren closed show ?thesis
      using ret rest by (rule parse_pybind_signature_trailing)
  qed
  then show ?thesis by (simp only: cannot_parse_eq)
qed

theorem parse_pybind_signature_degrades_witness:
  "\<forall>lib.
     parse_pybind_signature lib \<lparr>PYBIND11_COMPATIBILITY = True, module_mapping = []\<rparr>
        (''f(a: int b)'' @ [NL, NL] @ ''hello'')
      = ([''cannot parse pybind11 function signature f(a: int b)''],
         Inr (''f'', extract_summary lib Map.empty [] ([NL] @ ''hello''),
              [(ellipsis, None, None)], None))
   \<and> parse_pybind_signature lib \<lparr>PYBIND11_COMPATIBILITY = True, module_mapping = []\<rparr>
        ''f(a: int) -> int xx''
      = ([''cannot parse pybind11 function signature f(a: int) -> int xx''],
         Inr (''f'', [], [(ellipsis, None, None)], None))"
proof (intro allI conjI)
  fix lib
  let ?st = "\<lparr>PYBIND11_COMPATIBILITY = True, module_mapping = []\<rparr>"
  let ?sig = "''f(a: int b)'' @ [NL, NL] @ ''hello''"
  let ?inner = "''a: int b)'' @ [NL, NL] @ ''hello''"
  let ?rest = "'' b)'' @ [NL, NL] @ ''hello''"
  have paren: "dropWhile is_name_char ?sig = CHR ''('' # ?inner"
    by (simp add: is_name_char_def)
  have consumed: "args_consumed ?st ?inner [(''a'', Some ''int'', None)] ?rest"
    by (rule args_consumed.first) (simp_all add: parser_defs)
  have fail: "(\<exists>args rest. args_consumed ?st ?inner args rest
           \<and> rest \<noteq> [] \<and> hd rest \<noteq> CHR '')'' \<and> \<not> startswith rest '', '')
       \<or> (\<exists>args closing ret rest. parse_args ?st [] ?inner = Inr (ArgsClosed args closing)
           \<and> parse_return_type ?st (tl closing) = Inr (rest, ret)
           \<and> rest \<noteq> [] \<and> hd rest \<noteq> NL)"
    apply (rule disjI1)
    apply (rule exI [of _ "[(''a'', Some ''int'', None)]"])
    apply (rule exI [of _ ?rest])
    apply (insert consumed)
    apply (simp add: startswith_def)
    done
  from parse_pybind_signature_degrades [OF paren fail, of lib]
  show "parse_pybind_signature lib ?st ?sig
      = ([''cannot parse pybind11 function signature f(a: int b)''],
         Inr (''f'', extract_summary lib Map.empty [] ([NL] @ ''hello''),
              [(ellipsis, None, None)], None))"
    by (simp add: is_name_char_def startswith_def)
next
  fix lib
  let ?st = "\<lparr>PYBIND11_COMPATIBILITY = True, module_mapping = []\<rparr>"
  have paren: "dropWhile is_name_char ''f(a: int) -> int xx'' = CHR ''('' # ''a: int) -> int xx''"
    by (simp add: is_name_char_def)
  have closed: "parse_args ?st [] ''a: int) -> int xx''
      = Inr (ArgsClosed [(''a'', Some ''int'', None)] '') -> int xx'')"
    by (simp add: parser_defs)
  have ret: "parse_return_type ?st (tl '') -> int xx'') = Inr ('' xx'', Some ''int'')"
    by (simp add: parser_defs)
  have fail: "(\<exists>args rest. args_consumed ?st ''a: int) -> int xx'' args rest
           \<and> rest \<noteq> [] \<and> hd rest \<noteq> CHR '')'' \<and> \<not> startswith rest '', '')
       \<or> (\<exists>args closing ret rest.
             parse_args ?st [] ''a: int) -> int xx'' = Inr (ArgsClosed args closing)
           \<and> parse_return_type ?st (tl closing) = Inr (rest, ret)
           \<and> rest \<noteq> [] \<and> hd rest \<noteq> NL)"
    apply (rule disjI2)
    apply (rule exI [of _ "[(''a'', Some ''int'', None)]"])
    apply (rule exI [of _ "'') -> int xx''"])
    apply (rule exI [of _ "Some ''int''"])
    apply (rule exI [of _ "'' xx''"])
    apply (insert closed ret)
    apply simp
    done
  from parse_pybind_signature_degrades [OF paren fail, of lib]
  show "parse_pybind_signature lib ?st ''f(a: int) -> int xx''
      = ([''cannot parse pybind11 function signature f(a: int) -> int xx''],
         Inr (''f'', [], [(ellipsis, None, None)], None))"
    by (simp add: is_name_char_def startswith_def)
qed

section \<open>Functions read from the docstring: properties\<close>

lemma pybind_param_type:
  "param_type (pybind_param lib po arg)
     = (case arg of (name, ty, dflt) \<Rightarrow> if name = ''self'' then None else ty)"
  by (cases arg) (simp add: pybind_param_def)

text \<open>
  Claim C8. On the docstring path (the compatibility switch is set and the docstring starts
  with the function's name), every parsed signature gives one record, in order, and no
  record is a class method. A record whose owner is a class and whose first parsed
  parameter is named \<^verbatim>\<open>self\<close> is not a static method, and its \<^verbatim>\<open>self\<close> parameter has no
  type in the output; every other record (the owner is a class and the first parameter is
  not \<^verbatim>\<open>self\<close>, or the owner is not a class) is a static method. The types of the other
  parameters are the parsed ones.
\<close>

theorem pybind_self_marks_instance_method:
  assumes "PYBIND11_COMPATIBILITY st" and "path \<noteq> []" and "startswith d (last path)"
    and "parse_pybind_docstring lib st (last path) d = (log, Inr funcs)"
  shows "\<exists>outs. extract_function_doc lib st parent_isclass path (Some d) introspected = (log, Inr outs)
     \<and> length outs = length funcs
     \<and> (\<forall>i < length funcs.
          (case funcs ! i of (name, summary, args, ty) \<Rightarrow>
             \<not> is_classmethod (outs ! i)
             \<and> map param_type (fn_params (outs ! i))
                 = map (\<lambda>(name, ty, dflt). if name = ''self'' then None else ty) args
             \<and> (if parent_isclass \<and> args \<noteq> [] \<and> fst (hd args) = ''self''
                 then \<not> is_staticmethod (outs ! i)
                      \<and> param_name (hd (fn_params (outs ! i))) = ''self''
                      \<and> param_type (hd (fn_params (outs ! i))) = None
                 else is_staticmethod (outs ! i))))"
proof -
  let ?outs = "map (pybind_function_doc lib parent_isclass (last path)) funcs"
  have run: "extract_function_doc lib st parent_isclass path (Some d) introspected = (log, Inr ?outs)"
    using assms by (simp add: extract_function_doc_def)
  have each: "case func of (name, summary, args, ty) \<Rightarrow>
             \<not> is_classmethod (pybind_function_doc lib parent_isclass (last path) func)
             \<and> map param_type (fn_params (pybind_function_doc lib parent_isclass (last path) func))
                 = map (\<lambda>(name, ty, dflt). if name = ''self'' then None else ty) args
             \<and> (if parent_isclass \<and> args \<noteq> [] \<and> fst (hd args) = ''self''
                 then \<not> is_staticmethod (pybind_function_doc lib parent_isclass (last path) func)
                      \<and> param_name (hd (fn_params (pybind_function_doc lib parent_isclass (last path) func))) = ''self''
                      \<and> param_type (hd (fn_params (pybind_function_doc lib parent_isclass (last path) func))) = None
                 else is_staticmethod (pybind_function_doc lib parent_isclass (last path) func))"
    for func
  proof -
    obtain name summary args ty where func: "func = (name, summary, args, ty)"
      by (cases func) auto
    show ?thesis
    proof (cases "parent_isclass \<and> args \<noteq> [] \<and> fst (hd args) = ''self''")
      case False
      then show ?thesis
        by (auto simp: func pybind_function_doc_def Let_def pybind_param_type)
    next
      case True
      then obtain ty0 d0 rest where args: "args = (''self'', ty0, d0) # rest"
        by (cases args) auto
      with True show ?thesis
        by (simp add: func pybind_function_doc_def Let_def pybind_param_type)
           (simp add: pybind_param_def)
    qed
  qed
  show ?thesis
  proof (intro exI [of _ ?outs] conjI allI impI)
    show "extract_function_doc lib st parent_isclass path (Some d) introspected = (log, Inr ?outs)"
      by (rule run)
    show "length ?outs = length funcs" by simp
  next
    fix i assume "i < length funcs"
    then have nth: "?outs ! i = pybind_function_doc lib parent_isclass (last path) (funcs ! i)"
      by simp
    show "case funcs ! i of (name, summary, args, ty) \<Rightarrow>
             \<not> is_classmethod (?outs ! i)
             \<and> map param_type (fn_params (?outs ! i))
                 = map (\<lambda>(name, ty, dflt). if name = ''self'' then None else ty) args
             \<and> (if parent_isclass \<and> args \<noteq> [] \<and> fst (hd args) = ''self''
                 then \<not> is_staticmethod (?outs ! i)
                      \<and> param_name (hd (fn_params (?outs ! i))) = ''self''
                      \<and> param_type (hd (fn_params (?outs ! i))) = None
                 else is_staticmethod (?outs ! i))"
      unfolding nth by (rule each)
  qed
qed

theorem pybind_self_marks_instance_method_witness:
  "\<forall>lib introspected.
     extract_function_doc lib \<lparr>PYBIND11_COMPATIBILITY = True, module_mapping = []\<rparr> True
        [''geo'', ''Shape'', ''scale''] (Some (''scale(self: geo.Shape, arg0: float) -> None'' @ [NL]))
        introspected
     = ([], Inr [\<lparr>fn_name = ''scale'',
                   fn_params =
                     [\<lparr>param_name = ''self'', param_type = None,
                       param_default = html_escape lib [], param_kind = ''POSITIONAL_ONLY''\<rparr>,
                      \<lparr>param_name = ''arg0'', param_type = Some ''float'',
                       param_default = html_escape lib [], param_kind = ''POSITIONAL_ONLY''\<rparr>],
                   has_complex_params = True, has_details = False, fn_summary = [],
                   fn_type = None, is_classmethod = False, is_staticmethod = False\<rparr>])
   \<and> (\<exists>outs.
        extract_function_doc lib \<lparr>PYBIND11_COMPATIBILITY = True, module_mapping = []\<rparr> False
          [''geo'', ''scale''] (Some (''scale(self: geo.Shape, arg0: float) -> None'' @ [NL]))
          introspected = ([], Inr outs)
        \<and> is_staticmethod (outs ! 0) \<and> \<not> is_classmethod (outs ! 0))"
proof (intro allI conjI)
  fix lib :: pylib and introspected :: "string list \<times> (py_error + function_doc list)"
  let ?st = "\<lparr>PYBIND11_COMPATIBILITY = True, module_mapping = []\<rparr>"
  let ?doc = "''scale(self: geo.Shape, arg0: float) -> None'' @ [NL]"
  have parsed: "parse_pybind_docstring lib ?st ''scale'' ?doc
      = ([], Inr [(''scale'', [], [(''self'', Some ''geo.Shape'', None),
                                   (''arg0'', Some ''float'', None)], Some ''None'')])"
    by (simp add: parse_pybind_docstring_def parser_defs)
  have flag: "PYBIND11_COMPATIBILITY ?st" by simp
  have sw: "startswith ?doc (last [''geo'', ''Shape'', ''scale''])"
    by (simp add: startswith_def)
  have sw': "startswith ?doc (last [''geo'', ''scale''])"
    by (simp add: startswith_def)
  from pybind_self_marks_instance_method
         [of ?st "[''geo'', ''Shape'', ''scale'']" ?doc lib "[]" _ True introspected,
          OF flag _ sw] parsed
  show "extract_function_doc lib ?st True [''geo'', ''Shape'', ''scale''] (Some ?doc) introspected
     = ([], Inr [\<lparr>fn_name = ''scale'',
                   fn_params =
                     [\<lparr>param_name = ''self'', param_type = None,
                       param_default = html_escape lib [], param_kind = ''POSITIONAL_ONLY''\<rparr>,
                      \<lparr>param_name = ''arg0'', param_type = Some ''float'',
                       param_default = html_escape lib [], param_kind = ''POSITIONAL_ONLY''\<rparr>],
                   has_complex_params = True, has_details = False, fn_summary = [],
                   fn_type = None, is_classmethod = False, is_staticmethod = False\<rparr>])"
    by (simp add: extract_function_doc_def pybind_function_doc_def pybind_param_def truthy_def
        str_nat.simps startswith_def)
  from pybind_self_marks_instance_method
         [of ?st "[''geo'', ''scale'']" ?doc lib "[]" _ False introspected, OF flag _ sw'] parsed
  show "\<exists>outs. extract_function_doc lib ?st False [''geo'', ''scale''] (Some ?doc) introspected
          = ([], Inr outs)
        \<and> is_staticmethod (outs ! 0) \<and> \<not> is_classmethod (outs ! 0)"
    by auto
qed

section \<open>Overloaded docstrings: properties\<close>

text \<open>
  The example of claim C3: a docstring with the overload header and two numbered blocks,
  ending in a blank line, gives two tuples in order, each named \<^verbatim>\<open>f\<close>, with one
  parameter \<^verbatim>\<open>a\<close> whose type is the mapped \<^verbatim>\<open>int\<close> and \<^verbatim>\<open>str\<close>, and the same return type.
\<close>

lemma overload_example:
  "parse_pybind_docstring lib st ''f''
     (''f(*args, **kwargs)'' @ [NL] @ ''Overloaded function.'' @ [NL, NL]
        @ ''1. f(a: int) -> int'' @ [NL, NL] @ ''2. f(a: str) -> str'' @ [NL, NL])
   = ([], Inr [(''f'', [], [(''a'', Some (map_name_prefix st ''int''), None)],
                 Some (map_name_prefix st ''int'')),
               (''f'', [], [(''a'', Some (map_name_prefix st ''str''), None)],
                 Some (map_name_prefix st ''str''))])"
  by (simp add: parse_pybind_docstring_def parse_overloads.simps marker_def str_nat.simps slice_def
      parse_pybind_type.simps parse_pybind_type_inner.simps parse_pybind_signature_def
      parse_args.simps parse_arg_def parse_arg_type_def parse_arg_default_def parse_return_type_def
      is_arg_name_char_def is_default_value_char_def is_type_char_def is_name_char_def
      startswith_def extract_summary_def)

text \<open>
  Claim C3 says that each numbered block is sliced up to the next numbered marker and the
  last one up to the end of the input. The code slices the last block with the -1 that
  \<^verbatim>\<open>find\<close> returns as the end of the slice, \<^verbatim>\<open>doc[len(str(id - 1)) + 2:next]\<close>, which
  leaves out the last character of the input: for a docstring that ends with its last
  signature, the return type \<^verbatim>\<open>int\<close> is read as \<^verbatim>\<open>in\<close>, while the whole block parses to
  \<^verbatim>\<open>int\<close>.
\<close>

theorem overload_last_block_loses_character:
  "\<forall>lib.
     parse_pybind_docstring lib \<lparr>PYBIND11_COMPATIBILITY = True, module_mapping = []\<rparr> ''f''
       (''f(*args, **kwargs)'' @ [NL] @ ''Overloaded function.'' @ [NL, NL]
          @ ''1. f(a: int) -> int'')
     = ([], Inr [(''f'', [], [(''a'', Some ''int'', None)], Some ''in'')])
   \<and> parse_pybind_signature lib \<lparr>PYBIND11_COMPATIBILITY = True, module_mapping = []\<rparr>
       ''f(a: int) -> int''
     = ([], Inr (''f'', [], [(''a'', Some ''int'', None)], Some ''int''))"
proof (intro allI conjI)
  fix lib
  show "parse_pybind_docstring lib \<lparr>PYBIND11_COMPATIBILITY = True, module_mapping = []\<rparr> ''f''
       (''f(*args, **kwargs)'' @ [NL] @ ''Overloaded function.'' @ [NL, NL]
          @ ''1. f(a: int) -> int'')
     = ([], Inr [(''f'', [], [(''a'', Some ''int'', None)], Some ''in'')])"
    by (simp add: parse_pybind_docstring_def parse_overloads.simps marker_def str_nat.simps
        slice_def parser_defs)
  show "parse_pybind_signature lib \<lparr>PYBIND11_COMPATIBILITY = True, module_mapping = []\<rparr>
       ''f(a: int) -> int''
     = ([], Inr (''f'', [], [(''a'', Some ''int'', None)], Some ''int''))"
    by (simp add: parser_defs)
qed

section \<open>Export list: properties\<close>

lemma register_mapping_keeps:
  "register_mapping st key val = Inr st1 \<Longrightarrow>
   module_mapping st1 = module_mapping st @ [(key, val)] \<and> key \<notin> fst ` set (module_mapping st)"
  by (auto simp: register_mapping_def split: if_splits)

lemma register_export_mono:
  assumes "register_export st path name obj = Inr st1"
  shows "set (module_mapping st) \<subseteq> set (module_mapping st1)"
    and "distinct (map fst (module_mapping st)) \<Longrightarrow> distinct (map fst (module_mapping st1))"
  using assms
  by (auto simp: register_export_def Let_def
      split: py_object.splits py_attr.splits if_splits dest!: register_mapping_keeps)

lemma register_export_registers:
  assumes "register_export st path name obj = Inr st1"
  shows "obj = Module n pkg \<Longrightarrow> n \<noteq> join ''.'' (path @ [name]) \<Longrightarrow>
           (n, join ''.'' (path @ [name])) \<in> set (module_mapping st1)"
    and "obj = Object (PyStr m) (PyStr own) \<Longrightarrow> m @ ''.'' @ own \<noteq> join ''.'' (path @ [name]) \<Longrightarrow>
           (m @ ''.'' @ own, join ''.'' (path @ [name])) \<in> set (module_mapping st1)"
  using assms
  by (auto simp: register_export_def Let_def split: if_splits dest!: register_mapping_keeps)

lemma register_exports_mono:
  "register_exports st path members names = Inr st1 \<Longrightarrow>
   set (module_mapping st) \<subseteq> set (module_mapping st1)
   \<and> (distinct (map fst (module_mapping st)) \<longrightarrow> distinct (map fst (module_mapping st1)))"
proof (induction names arbitrary: st)
  case Nil
  then show ?case by simp
next
  case (Cons name names)
  from Cons.prems obtain obj st2 where
    obj: "members name = Some obj" and one: "register_export st path name obj = Inr st2"
    and more: "register_exports st2 path members names = Inr st1"
    by (auto split: option.splits sum.splits)
  from register_export_mono [OF one] Cons.IH [OF more] show ?case by blast
qed

lemma register_exports_registers:
  "register_exports st path members names = Inr st1 \<Longrightarrow> name \<in> set names \<Longrightarrow>
   (\<forall>n pkg. members name = Some (Module n pkg) \<and> n \<noteq> join ''.'' (path @ [name]) \<longrightarrow>
        (n, join ''.'' (path @ [name])) \<in> set (module_mapping st1))
   \<and> (\<forall>m own. members name = Some (Object (PyStr m) (PyStr own))
          \<and> m @ ''.'' @ own \<noteq> join ''.'' (path @ [name]) \<longrightarrow>
        (m @ ''.'' @ own, join ''.'' (path @ [name])) \<in> set (module_mapping st1))"
proof (induction names arbitrary: st)
  case Nil
  then show ?case by simp
next
  case (Cons first names)
  from Cons.prems(1) obtain obj st2 where
    obj: "members first = Some obj" and one: "register_export st path first obj = Inr st2"
    and more: "register_exports st2 path members names = Inr st1"
    by (auto split: option.splits sum.splits)
  show ?case
  proof (cases "name = first")
    case True
    from register_exports_mono [OF more]
    have keep: "set (module_mapping st2) \<subseteq> set (module_mapping st1)" by simp
    from register_export_registers [OF one] obj True keep show ?thesis by auto
  next
    case False
    with Cons.prems(2) have "name \<in> set names" by simp
    from Cons.IH [OF more this] show ?thesis .
  qed
qed

text \<open>
  Claim C6. When a module declares \<^verbatim>\<open>__all__\<close>, the first pass over the whole list is
  complete before the extraction of any member begins: if the first pass raises, nothing is
  extracted, and otherwise the extraction starts from the state the first pass leaves. That
  state keeps every rewrite registered before, keeps the keys distinct, and holds, for every
  entry of the list whose natural qualified name (\<^verbatim>\<open>__name__\<close> of a module,
  \<^verbatim>\<open>__module__ + '.' + __name__\<close> of another object) differs from its path in the list,
  the rewrite from that name to that path. With the list \<^verbatim>\<open>['Pub']\<close> on the module
  \<^verbatim>\<open>root\<close> and an empty table, where \<^verbatim>\<open>Pub\<close> is natively \<^verbatim>\<open>pkg._impl.Pub\<close>, the mapper
  then sends \<^verbatim>\<open>pkg._impl.Pub\<close> to \<^verbatim>\<open>root.Pub\<close> and \<^verbatim>\<open>pkg._impl.Pub.method\<close> to
  \<^verbatim>\<open>root.Pub.method\<close>.
\<close>

theorem export_list_mapped_before_extraction:
  "(register_exports st path members all_names = Inl e \<longrightarrow>
      render_module_exports document st path members all_names page = Inl e)
   \<and> (register_exports st path members all_names = Inr st1 \<longrightarrow>
        render_module_exports document st path members all_names page
          = extract_exports document st1 path members all_names page
        \<and> set (module_mapping st) \<subseteq> set (module_mapping st1)
        \<and> (distinct (map fst (module_mapping st)) \<longrightarrow> distinct (map fst (module_mapping st1)))
        \<and> (\<forall>name \<in> set all_names.
             (\<forall>n pkg. members name = Some (Module n pkg) \<and> n \<noteq> join ''.'' (path @ [name]) \<longrightarrow>
                (n, join ''.'' (path @ [name])) \<in> set (module_mapping st1))
             \<and> (\<forall>m own. members name = Some (Object (PyStr m) (PyStr own))
                    \<and> m @ ''.'' @ own \<noteq> join ''.'' (path @ [name]) \<longrightarrow>
                (m @ ''.'' @ own, join ''.'' (path @ [name])) \<in> set (module_mapping st1))))
   \<and> (\<exists>st2. register_exports \<lparr>PYBIND11_COMPATIBILITY = False, module_mapping = []\<rparr> [''root'']
               [''Pub'' \<mapsto> Object (PyStr ''pkg._impl'') (PyStr ''Pub'')] [''Pub''] = Inr st2
          \<and> map_name_prefix st2 ''pkg._impl.Pub'' = ''root.Pub''
          \<and> map_name_prefix st2 ''pkg._impl.Pub.method'' = ''root.Pub.method'')"
proof (intro conjI impI ballI)
  assume "register_exports st path members all_names = Inl e"
  then show "render_module_exports document st path members all_names page = Inl e"
    by (simp add: render_module_exports_def)
next
  assume ok: "register_exports st path members all_names = Inr st1"
  then show "render_module_exports document st path members all_names page
          = extract_exports document st1 path members all_names page"
    by (simp add: render_module_exports_def)
  from register_exports_mono [OF ok]
  show "set (module_mapping st) \<subseteq> set (module_mapping st1)" by simp
  assume "distinct (map fst (module_mapping st))"
  with register_exports_mono [OF ok]
  show "distinct (map fst (module_mapping st1))" by simp
next
  fix name
  assume ok: "register_exports st path members all_names = Inr st1" and "name \<in> set all_names"
  from register_exports_registers [OF this]
  show "\<forall>n pkg. members name = Some (Module n pkg) \<and> n \<noteq> join ''.'' (path @ [name]) \<longrightarrow>
                (n, join ''.'' (path @ [name])) \<in> set (module_mapping st1)"
    and "\<forall>m own. members name = Some (Object (PyStr m) (PyStr own))
                    \<and> m @ ''.'' @ own \<noteq> join ''.'' (path @ [name]) \<longrightarrow>
                (m @ ''.'' @ own, join ''.'' (path @ [name])) \<in> set (module_mapping st1)"
    by simp_all
next
  show "\<exists>st2. register_exports \<lparr>PYBIND11_COMPATIBILITY = False, module_mapping = []\<rparr> [''root'']
               [''Pub'' \<mapsto> Object (PyStr ''pkg._impl'') (PyStr ''Pub'')] [''Pub''] = Inr st2
          \<and> map_name_prefix st2 ''pkg._impl.Pub'' = ''root.Pub''
          \<and> map_name_prefix st2 ''pkg._impl.Pub.method'' = ''root.Pub.method''"
    by (simp add: register_export_def register_mapping_def map_name_prefix_def key_matches_def
        startswith_def)
qed

theorem export_list_mapped_before_extraction_witness:
  "register_exports \<lparr>PYBIND11_COMPATIBILITY = False, module_mapping = []\<rparr> [''root'']
      [''Use'' \<mapsto> Object (PyStr ''root'') (PyStr ''Use''),
       ''Pub'' \<mapsto> Object (PyStr ''pkg._impl'') (PyStr ''Pub'')] [''Use'', ''Pub'']
     = Inr \<lparr>PYBIND11_COMPATIBILITY = False,
            module_mapping = [(''pkg._impl.Pub'', ''root.Pub'')]\<rparr>
   \<and> render_module_exports
        (\<lambda>st subpath obj page. Inr (st, page @ [(subpath, map_name_prefix st ''pkg._impl.Pub.method'')]))
        \<lparr>PYBIND11_COMPATIBILITY = False, module_mapping = []\<rparr> [''root'']
        [''Use'' \<mapsto> Object (PyStr ''root'') (PyStr ''Use''),
         ''Pub'' \<mapsto> Object (PyStr ''pkg._impl'') (PyStr ''Pub'')] [''Use'', ''Pub''] []
     = Inr (\<lparr>PYBIND11_COMPATIBILITY = False,
              module_mapping = [(''pkg._impl.Pub'', ''root.Pub'')]\<rparr>,
            [([''root'', ''Use''], ''root.Pub.method''),
             ([''root'', ''Pub''], ''root.Pub.method'')])"
proof -
  let ?st = "\<lparr>PYBIND11_COMPATIBILITY = False, module_mapping = []\<rparr>"
  let ?members = "[''Use'' \<mapsto> Object (PyStr ''root'') (PyStr ''Use''),
       ''Pub'' \<mapsto> Object (PyStr ''pkg._impl'') (PyStr ''Pub'')]"
  let ?after = "\<lparr>PYBIND11_COMPATIBILITY = False,
            module_mapping = [(''pkg._impl.Pub'', ''root.Pub'')]\<rparr>"
  let ?document = "\<lambda>st subpath obj page.
      Inr (st, page @ [(subpath, map_name_prefix st ''pkg._impl.Pub.method'')])
        :: py_error + state \<times> (string list \<times> string) list"
  have pass: "register_exports ?st [''root''] ?members [''Use'', ''Pub''] = Inr ?after"
    by (simp add: register_export_def register_mapping_def)
  from export_list_mapped_before_extraction
         [of ?st "[''root'']" ?members "[''Use'', ''Pub'']" _ ?document "[]" ?after] pass
  have "render_module_exports ?document ?st [''root''] ?members [''Use'', ''Pub''] []
      = extract_exports ?document ?after [''root''] ?members [''Use'', ''Pub''] []"
    by blast
  then have "render_module_exports ?document ?st [''root''] ?members [''Use'', ''Pub''] []
     = Inr (?after, [([''root'', ''Use''], ''root.Pub.method''),
                     ([''root'', ''Pub''], ''root.Pub.method'')])"
    by (simp add: map_name_prefix_def key_matches_def startswith_def)
  with pass show ?thesis by simp
qed

end
